theory Spec2Isabelle
  imports Main "HOL-Library.Word" "HOL-Library.Multiset" "HOL-Library.Sublist"
begin

section \<open>Data model\<close>

text \<open>
  The Go structs the reconciler reads and builds, as records. Their declarations live in
  the provider's client library (\<open>compute\<close>) and in the packages \<open>kops\<close> and
  \<open>cloudinstances\<close>; only the fields the code touches are listed. A pointer the code
  tests against \<open>nil\<close> is an \<open>option\<close>; the other pointers (slice elements handed over
  by the client library or by the caller) are taken to be non-nil and are modelled by the
  value they point to. Go's \<open>int\<close> is the 64-bit integer of the platforms the tool is
  built for.
\<close>

record Cluster =
  cluster_Name :: string

record InstanceGroup =
  ig_Name :: string

record InstanceTemplate =
  SelfLink :: string

record InstanceGroupManager =
  igm_Name :: string
  igm_Zone :: string
  igm_InstanceTemplate :: string
  igm_TargetSize :: "64 word"

record ManagedInstanceVersion =
  miv_InstanceTemplate :: string

record ManagedInstance =
  mi_Instance :: string
  mi_Id :: "64 word"
  mi_Version :: "ManagedInstanceVersion option"

text \<open>The field \<open>Raw\<close> has the empty interface type: any value may sit in it.\<close>

datatype raw = RawNil | RawInstanceGroupManager InstanceGroupManager | RawOther

record 'node CloudInstanceGroupMember =
  ID :: string
  Node :: "'node option"

record 'node CloudInstanceGroup =
  HumanName :: string
  cig_InstanceGroup :: "InstanceGroup option"
  Ready :: "'node CloudInstanceGroupMember list"
  NeedUpdate :: "'node CloudInstanceGroupMember list"
  MinSize :: "64 word"
  MaxSize :: "64 word"
  Raw :: raw

text \<open>
  Errors. An error handed back by the provider is opaque (\<open>ProviderError\<close>, with its
  message); the errors the code makes itself are built by \<open>fmt.Errorf\<close> from a format
  string and one argument, a string printed with \<open>%q\<close> or an error printed with \<open>%v\<close>.
\<close>

datatype error =
    ProviderError string
  | Errorf_q string string
  | Errorf_v string error



text \<open>A Go function either returns or panics.\<close>

datatype 'a outcome = Panics | Returns 'a

section \<open>Matching a managed group to a declared instance group\<close>

text \<open>
  \<open>SafeObjectName\<close> is defined elsewhere in the package; it is a parameter here, so that
  everything below holds for every naming scheme.
\<close>

definition NameForInstanceGroupManager ::
  "(string \<Rightarrow> string \<Rightarrow> string) \<Rightarrow> Cluster \<Rightarrow> InstanceGroup \<Rightarrow> string \<Rightarrow> string" where
  "NameForInstanceGroupManager SafeObjectName c ig zone =
     SafeObjectName (zone @ ''.'' @ ig_Name ig) (cluster_Name c)"

text \<open>The loop of \<open>matchInstanceGroup\<close>, with the slice \<open>matches\<close> as accumulator.\<close>

fun collectMatches ::
  "(string \<Rightarrow> string \<Rightarrow> string) \<Rightarrow> InstanceGroupManager \<Rightarrow> Cluster \<Rightarrow>
   InstanceGroup list \<Rightarrow> InstanceGroup list \<Rightarrow> InstanceGroup list" where
  "collectMatches SafeObjectName mig c [] matches = matches"
| "collectMatches SafeObjectName mig c (ig # instancegroups) matches =
     (let name = NameForInstanceGroupManager SafeObjectName c ig (igm_Zone mig)
      in if name = igm_Name mig
         then collectMatches SafeObjectName mig c instancegroups (matches @ [ig])
         else collectMatches SafeObjectName mig c instancegroups matches)"

definition matchInstanceGroup ::
  "(string \<Rightarrow> string \<Rightarrow> string) \<Rightarrow> InstanceGroupManager \<Rightarrow> Cluster \<Rightarrow>
   InstanceGroup list \<Rightarrow> InstanceGroup option \<times> error option" where
  "matchInstanceGroup SafeObjectName mig c instancegroups =
     (let matches = collectMatches SafeObjectName mig c instancegroups []
      in if length matches = 0 then (None, None)
         else if length matches \<noteq> 1
         then (None, Some (Errorf_q ''found multiple instance groups matching MIG %q'' (igm_Name mig)))
         else (Some (matches ! 0), None))"

text \<open>The declared groups whose derived name is the name of the live group.\<close>

definition derivesName ::
  "(string \<Rightarrow> string \<Rightarrow> string) \<Rightarrow> InstanceGroupManager \<Rightarrow> Cluster \<Rightarrow> InstanceGroup \<Rightarrow> bool" where
  "derivesName SafeObjectName mig c ig =
     (NameForInstanceGroupManager SafeObjectName c ig (igm_Zone mig) = igm_Name mig)"

section \<open>Classifying the instances of a managed group\<close>

text \<open>\<open>strconv.FormatUint(x, 10)\<close>: the decimal digits of an unsigned 64-bit number.\<close>

fun decimalDigits :: "nat \<Rightarrow> string" where
  "decimalDigits n =
     (if n < 10 then [''0123456789'' ! n]
      else decimalDigits (n div 10) @ [''0123456789'' ! (n mod 10)])"

declare decimalDigits.simps [simp del]

definition FormatUint :: "64 word \<Rightarrow> string" where
  "FormatUint x = decimalDigits (unat x)"

text \<open>The test \<open>i.Version != nil && latestInstanceTemplate == i.Version.InstanceTemplate\<close>.\<close>

definition hasLatestTemplate :: "string \<Rightarrow> ManagedInstance \<Rightarrow> bool" where
  "hasLatestTemplate latestInstanceTemplate i =
     (case mi_Version i of
        None \<Rightarrow> False
      | Some v \<Rightarrow> latestInstanceTemplate = miv_InstanceTemplate v)"

text \<open>The member record built for one instance, with the node looked up by its id.\<close>

definition newMember ::
  "(string \<rightharpoonup> 'node) \<Rightarrow> ManagedInstance \<Rightarrow> 'node CloudInstanceGroupMember" where
  "newMember nodesByExternalID i =
     (let id = mi_Instance i;
          cm = \<lparr>ID = id, Node = None\<rparr>
      in case nodesByExternalID (FormatUint (mi_Id i)) of
           Some node \<Rightarrow> cm\<lparr>Node := Some node\<rparr>
         | None \<Rightarrow> cm)"

text \<open>The body of the loop over the instances, and the loop.\<close>

definition classifyInstance ::
  "(string \<rightharpoonup> 'node) \<Rightarrow> string \<Rightarrow> 'node CloudInstanceGroup \<Rightarrow> ManagedInstance \<Rightarrow>
   'node CloudInstanceGroup" where
  "classifyInstance nodesByExternalID latestInstanceTemplate g i =
     (let cm = newMember nodesByExternalID i
      in if hasLatestTemplate latestInstanceTemplate i
         then g\<lparr>Ready := Ready g @ [cm]\<rparr>
         else g\<lparr>NeedUpdate := NeedUpdate g @ [cm]\<rparr>)"

fun classifyInstances ::
  "(string \<rightharpoonup> 'node) \<Rightarrow> string \<Rightarrow> ManagedInstance list \<Rightarrow> 'node CloudInstanceGroup \<Rightarrow>
   'node CloudInstanceGroup" where
  "classifyInstances nodesByExternalID latestInstanceTemplate [] g = g"
| "classifyInstances nodesByExternalID latestInstanceTemplate (i # instances) g =
     classifyInstances nodesByExternalID latestInstanceTemplate instances
       (classifyInstance nodesByExternalID latestInstanceTemplate g i)"

section \<open>The provider\<close>

text \<open>
  The provider's client and the package functions that call it (\<open>FindInstanceTemplates\<close>,
  \<open>ListManagedInstances\<close>, \<open>DeleteInstanceGroupManager\<close>, \<open>DeleteInstanceTemplate\<close>) are
  outside the modelled files: a cloud is the record of what these calls answer. During a
  discovery pass the provider is a snapshot, so a listing call is a function of its
  request; each may fail. The paged listing of the managed groups of a zone is the finite
  list of its pages in fetch order, each page fetched or failed. The two deleting calls
  change the provider: they are state transformers over the provider's state \<open>'s\<close>.
\<close>

record 's GCECloud =
  Project :: string
  Zones :: "error + string list"
  FindInstanceTemplates :: "string \<Rightarrow> error + InstanceTemplate list"
  ListInstanceGroupManagers :: "string \<Rightarrow> string \<Rightarrow> (error + InstanceGroupManager list) list"
  ListManagedInstances :: "InstanceGroupManager \<Rightarrow> error + ManagedInstance list"
  DeleteInstanceGroupManager :: "InstanceGroupManager \<Rightarrow> 's \<Rightarrow> error option \<times> 's"
  DeleteInstanceTemplate :: "string \<Rightarrow> 's \<Rightarrow> error option \<times> 's"

section \<open>Discovery\<close>

type_synonym 'node groups = "string \<rightharpoonup> 'node CloudInstanceGroup"

text \<open>The index of the cluster's templates by their link.\<close>

definition indexTemplates :: "InstanceTemplate list \<Rightarrow> (string \<rightharpoonup> InstanceTemplate)" where
  "indexTemplates templates =
     fold (\<lambda>t instanceTemplates. instanceTemplates(SelfLink t \<mapsto> t)) templates Map.empty"

text \<open>Go's conversion \<open>int(x)\<close> of an \<open>int64\<close>.\<close>

definition int_of_int64 :: "64 word \<Rightarrow> 64 word" where
  "int_of_int64 x = scast x"

text \<open>
  The body of the loop over the managed groups of a page: the error the callback returns
  there, if any, and the map. The map holds a pointer to the record \<open>g\<close>, put there before
  the instances are listed; the appends that follow reach the map through it, which the
  model writes as a second store under the same key. Logging is left out, and with it the
  only use of \<open>warnUnmatched\<close>.
\<close>

definition processInstanceGroupManager ::
  "(string \<Rightarrow> string \<Rightarrow> string) \<Rightarrow> 's GCECloud \<Rightarrow> Cluster \<Rightarrow> InstanceGroup list \<Rightarrow> bool \<Rightarrow>
   (string \<rightharpoonup> 'node) \<Rightarrow> (string \<rightharpoonup> InstanceTemplate) \<Rightarrow> InstanceGroupManager \<Rightarrow>
   'node groups \<Rightarrow> error option \<times> 'node groups" where
  "processInstanceGroupManager SafeObjectName c cluster instancegroups warnUnmatched
       nodesByExternalID instanceTemplates mig groups =
     (let name = igm_Name mig
      in case instanceTemplates (igm_InstanceTemplate mig) of
           None \<Rightarrow> (None, groups)
         | Some instanceTemplate \<Rightarrow>
             (case matchInstanceGroup SafeObjectName mig cluster instancegroups of
                (ig, Some err) \<Rightarrow>
                  (Some (Errorf_q ''error getting instance group for MIG %q'' name), groups)
              | (None, None) \<Rightarrow> (None, groups)
              | (Some ig, None) \<Rightarrow>
                  (let g = \<lparr>HumanName = igm_Name mig,
                            cig_InstanceGroup = Some ig,
                            Ready = [],
                            NeedUpdate = [],
                            MinSize = int_of_int64 (igm_TargetSize mig),
                            MaxSize = int_of_int64 (igm_TargetSize mig),
                            Raw = RawInstanceGroupManager mig\<rparr>;
                       groups = groups(igm_Name mig \<mapsto> g);
                       latestInstanceTemplate = igm_InstanceTemplate mig
                   in case ListManagedInstances c mig of
                        Inl err \<Rightarrow> (Some err, groups)
                      | Inr instances \<Rightarrow>
                          (None, groups(igm_Name mig \<mapsto>
                             classifyInstances nodesByExternalID latestInstanceTemplate instances g)))))"

text \<open>The callback given to \<open>Pages\<close>: the loop over the items of one page.\<close>

fun processPage ::
  "(string \<Rightarrow> string \<Rightarrow> string) \<Rightarrow> 's GCECloud \<Rightarrow> Cluster \<Rightarrow> InstanceGroup list \<Rightarrow> bool \<Rightarrow>
   (string \<rightharpoonup> 'node) \<Rightarrow> (string \<rightharpoonup> InstanceTemplate) \<Rightarrow> InstanceGroupManager list \<Rightarrow>
   'node groups \<Rightarrow> error option \<times> 'node groups" where
  "processPage SafeObjectName c cluster instancegroups warnUnmatched nodesByExternalID
       instanceTemplates [] groups = (None, groups)"
| "processPage SafeObjectName c cluster instancegroups warnUnmatched nodesByExternalID
       instanceTemplates (mig # items) groups =
     (case processInstanceGroupManager SafeObjectName c cluster instancegroups warnUnmatched
             nodesByExternalID instanceTemplates mig groups of
        (Some err, groups') \<Rightarrow> (Some err, groups')
      | (None, groups') \<Rightarrow>
          processPage SafeObjectName c cluster instancegroups warnUnmatched nodesByExternalID
            instanceTemplates items groups')"

text \<open>
  Modelled from the spec: \<open>Pages\<close>, the paged listing of the provider's client library,
  is not among the source files. The specification has discovery enumerate the managed
  groups of a zone page by page, all pages going into the same map, and has a failed
  listing or a failed group abort the call. So \<open>Pages\<close> fetches the pages in order and
  gives each to the callback; it stops with the error of the first fetch that fails or of
  the first callback that fails.
\<close>

fun Pages ::
  "(error + InstanceGroupManager list) list \<Rightarrow>
   (InstanceGroupManager list \<Rightarrow> 'acc \<Rightarrow> error option \<times> 'acc) \<Rightarrow> 'acc \<Rightarrow> error option \<times> 'acc" where
  "Pages [] f acc = (None, acc)"
| "Pages (Inl err # pages) f acc = (Some err, acc)"
| "Pages (Inr page # pages) f acc =
     (case f page acc of
        (Some err, acc') \<Rightarrow> (Some err, acc')
      | (None, acc') \<Rightarrow> Pages pages f acc')"

text \<open>The loop over the zones, up to the final \<open>return groups, nil\<close>.\<close>

fun listZones ::
  "(string \<Rightarrow> string \<Rightarrow> string) \<Rightarrow> 's GCECloud \<Rightarrow> Cluster \<Rightarrow> InstanceGroup list \<Rightarrow> bool \<Rightarrow>
   (string \<rightharpoonup> 'node) \<Rightarrow> (string \<rightharpoonup> InstanceTemplate) \<Rightarrow> string \<Rightarrow> string list \<Rightarrow>
   'node groups \<Rightarrow> 'node groups option \<times> error option" where
  "listZones SafeObjectName c cluster instancegroups warnUnmatched nodesByExternalID
       instanceTemplates project [] groups = (Some groups, None)"
| "listZones SafeObjectName c cluster instancegroups warnUnmatched nodesByExternalID
       instanceTemplates project (zoneName # zones) groups =
     (case Pages (ListInstanceGroupManagers c project zoneName)
             (processPage SafeObjectName c cluster instancegroups warnUnmatched
                nodesByExternalID instanceTemplates) groups of
        (Some err, groups') \<Rightarrow>
          (None, Some (Errorf_v ''error listing InstanceGroupManagers: %v'' err))
      | (None, groups') \<Rightarrow>
          listZones SafeObjectName c cluster instancegroups warnUnmatched nodesByExternalID
            instanceTemplates project zones groups')"

text \<open>
  \<open>getCloudGroups\<close>. \<open>GetNodeMap\<close> of package \<open>cloudinstances\<close> is a parameter, like
  \<open>SafeObjectName\<close>. The result is Go's pair of the map (\<open>None\<close> for \<open>nil\<close>) and the error.
\<close>

definition getCloudGroups ::
  "(string \<Rightarrow> string \<Rightarrow> string) \<Rightarrow> ('node list \<Rightarrow> (string \<rightharpoonup> 'node)) \<Rightarrow> 's GCECloud \<Rightarrow>
   Cluster \<Rightarrow> InstanceGroup list \<Rightarrow> bool \<Rightarrow> 'node list \<Rightarrow>
   'node groups option \<times> error option" where
  "getCloudGroups SafeObjectName GetNodeMap c cluster instancegroups warnUnmatched nodes =
     (let groups = Map.empty;
          project = Project c;
          nodesByExternalID = GetNodeMap nodes
      in case FindInstanceTemplates c (cluster_Name cluster) of
           Inl err \<Rightarrow> (None, Some err)
         | Inr templates \<Rightarrow>
             (let instanceTemplates = indexTemplates templates
              in case Zones c of
                   Inl err \<Rightarrow> (None, Some err)
                 | Inr zones \<Rightarrow>
                     listZones SafeObjectName c cluster instancegroups warnUnmatched
                       nodesByExternalID instanceTemplates project zones groups))"

text \<open>
  The cloud whose listings leave out the managed groups on a template that is not one of
  the cluster's templates.
\<close>

definition withoutUnmanaged :: "'s GCECloud \<Rightarrow> Cluster \<Rightarrow> 's GCECloud" where
  "withoutUnmanaged c cluster =
     (case FindInstanceTemplates c (cluster_Name cluster) of
        Inl err \<Rightarrow> c
      | Inr templates \<Rightarrow>
          c\<lparr>ListInstanceGroupManagers := \<lambda>project zoneName.
              map (map_sum (\<lambda>err. err)
                     (filter (\<lambda>mig. indexTemplates templates (igm_InstanceTemplate mig) \<noteq> None)))
                (ListInstanceGroupManagers c project zoneName)\<rparr>)"

text \<open>
  An entry of the result map as discovery builds it from a managed group on one of the
  cluster's templates.
\<close>

definition builtEntry ::
  "(string \<rightharpoonup> InstanceTemplate) \<Rightarrow> string \<Rightarrow> 'node CloudInstanceGroup \<Rightarrow> bool" where
  "builtEntry instanceTemplates name g =
     (HumanName g = name \<and> MinSize g = MaxSize g \<and>
      (case Raw g of
         RawInstanceGroupManager mig \<Rightarrow>
           igm_Name mig = name \<and> MinSize g = igm_TargetSize mig \<and>
           instanceTemplates (igm_InstanceTemplate mig) \<noteq> None
       | RawNil \<Rightarrow> False
       | RawOther \<Rightarrow> False))"

section \<open>Deletion\<close>

text \<open>
  \<open>deleteCloudInstanceGroup\<close>: the type assertion on \<open>g.Raw\<close> panics unless a managed
  group sits there; then the two calls, in the provider's state.
\<close>

definition deleteCloudInstanceGroup ::
  "'s GCECloud \<Rightarrow> 'node CloudInstanceGroup \<Rightarrow> 's \<Rightarrow> (error option \<times> 's) outcome" where
  "deleteCloudInstanceGroup c g s =
     (case Raw g of
        RawInstanceGroupManager mig \<Rightarrow>
          (case DeleteInstanceGroupManager c mig s of
             (Some err, s') \<Rightarrow> Returns (Some err, s')
           | (None, s') \<Rightarrow> Returns (DeleteInstanceTemplate c (igm_InstanceTemplate mig) s'))
      | RawNil \<Rightarrow> Panics
      | RawOther \<Rightarrow> Panics)"

text \<open>
  To observe which provider calls a deletion makes, a cloud is wrapped so that each of
  its deleting calls also appends itself to a log carried beside the provider's state.
\<close>

datatype call =
    CallDeleteInstanceGroupManager InstanceGroupManager
  | CallDeleteInstanceTemplate string

definition traced :: "'s GCECloud \<Rightarrow> ('s \<times> call list) GCECloud" where
  "traced c =
     \<lparr>Project = Project c,
      Zones = Zones c,
      FindInstanceTemplates = FindInstanceTemplates c,
      ListInstanceGroupManagers = ListInstanceGroupManagers c,
      ListManagedInstances = ListManagedInstances c,
      DeleteInstanceGroupManager = (\<lambda>mig (s, log).
         case DeleteInstanceGroupManager c mig s of
           (r, s') \<Rightarrow> (r, (s', log @ [CallDeleteInstanceGroupManager mig]))),
      DeleteInstanceTemplate = (\<lambda>t (s, log).
         case DeleteInstanceTemplate c t s of
           (r, s') \<Rightarrow> (r, (s', log @ [CallDeleteInstanceTemplate t])))\<rparr>"

section \<open>Options of the etcd manager\<close>










text \<open>
  The addresses in a slice of pointers; and a heap in which the \<open>Backups\<close> of the etcd
  clusters at these addresses point to allocated backup specifications.
\<close>

definition listed :: "nat option list \<Rightarrow> nat set" where
  "listed etcdClusters = {a. Some a \<in> set etcdClusters}"




section \<open>The naming scheme\<close>

text \<open>
  Modelled from the spec: \<open>SafeObjectName\<close> of the package is not among the source
  files. The specification has the derived name combine the zone and the identifier of
  the instance group, scoped by the identifier of the cluster, with invalid characters
  sanitized and not rejected. Here the name and the cluster's name are joined by a dash
  and every dot becomes a dash, which the provider's names cannot hold. Under this scheme
  the declared groups \<open>pool.a\<close> and \<open>pool-a\<close> derive the same name.
\<close>

definition dashed :: "string \<Rightarrow> string" where
  "dashed s = map (\<lambda>ch. if ch = CHR ''.'' then CHR ''-'' else ch) s"

definition SafeObjectName :: "string \<Rightarrow> string \<Rightarrow> string" where
  "SafeObjectName name clusterName = dashed (name @ ''-'' @ clusterName)"

section \<open>Examples\<close>


text \<open>Nodes for the examples, and a node map keyed by the external id.\<close>

record ClusterNode =
  node_Name :: string
  node_ExternalID :: string

definition nodeMapByExternalID :: "ClusterNode list \<Rightarrow> (string \<rightharpoonup> ClusterNode)" where
  "nodeMapByExternalID nodes = fold (\<lambda>node m. m(node_ExternalID node \<mapsto> node)) nodes Map.empty"

definition exNode1 :: ClusterNode where
  "exNode1 = \<lparr>node_Name = ''node-1'', node_ExternalID = ''1001''\<rparr>"

text \<open>
  The cluster \<open>c1\<close> with declared groups \<open>nodes\<close>, \<open>masters\<close>, \<open>pool.a\<close> and \<open>pool-a\<close>.
  In zone \<open>us-east1-b\<close>: the live group of \<open>nodes\<close>, of target size 3, on the cluster's
  template \<open>templates/nodes-2\<close>; a live group on the same template whose name both pool
  groups derive; and a live group of that name on a template that is not the cluster's.
\<close>

definition exCluster :: Cluster where
  "exCluster = \<lparr>cluster_Name = ''c1''\<rparr>"

definition exNodes :: InstanceGroup where
  "exNodes = \<lparr>ig_Name = ''nodes''\<rparr>"

definition exMasters :: InstanceGroup where
  "exMasters = \<lparr>ig_Name = ''masters''\<rparr>"

definition exTemplate :: InstanceTemplate where
  "exTemplate = \<lparr>SelfLink = ''templates/nodes-2''\<rparr>"

definition exMIG :: InstanceGroupManager where
  "exMIG = \<lparr>igm_Name = ''us-east1-b-nodes-c1'', igm_Zone = ''us-east1-b'',
            igm_InstanceTemplate = ''templates/nodes-2'', igm_TargetSize = 3\<rparr>"

definition exForeignMIG :: InstanceGroupManager where
  "exForeignMIG = \<lparr>igm_Name = ''us-east1-b-pool-a-c1'', igm_Zone = ''us-east1-b'',
            igm_InstanceTemplate = ''templates/foreign'', igm_TargetSize = 7\<rparr>"

definition exPoolDot :: InstanceGroup where
  "exPoolDot = \<lparr>ig_Name = ''pool.a''\<rparr>"

definition exPoolDash :: InstanceGroup where
  "exPoolDash = \<lparr>ig_Name = ''pool-a''\<rparr>"

definition exPoolMIG :: InstanceGroupManager where
  "exPoolMIG = \<lparr>igm_Name = ''us-east1-b-pool-a-c1'', igm_Zone = ''us-east1-b'',
            igm_InstanceTemplate = ''templates/nodes-2'', igm_TargetSize = 2\<rparr>"

text \<open>
  Four instances of the live group: two on its current template (the first has joined
  the cluster as \<open>node-1\<close>), one on an older template, one with no recorded version.
\<close>

definition exInstance1 :: ManagedInstance where
  "exInstance1 = \<lparr>mi_Instance = ''instances/a'', mi_Id = 1001,
     mi_Version = Some \<lparr>miv_InstanceTemplate = ''templates/nodes-2''\<rparr>\<rparr>"

definition exInstance2 :: ManagedInstance where
  "exInstance2 = \<lparr>mi_Instance = ''instances/b'', mi_Id = 1002,
     mi_Version = Some \<lparr>miv_InstanceTemplate = ''templates/nodes-2''\<rparr>\<rparr>"

definition exInstance3 :: ManagedInstance where
  "exInstance3 = \<lparr>mi_Instance = ''instances/c'', mi_Id = 1003,
     mi_Version = Some \<lparr>miv_InstanceTemplate = ''templates/nodes-1''\<rparr>\<rparr>"

definition exInstance4 :: ManagedInstance where
  "exInstance4 = \<lparr>mi_Instance = ''instances/d'', mi_Id = 1004, mi_Version = None\<rparr>"

definition exInstances :: "ManagedInstance list" where
  "exInstances = [exInstance1, exInstance3, exInstance2, exInstance4]"

text \<open>
  A cloud that answers every call; its state counts the deletions made. The listing of
  zone \<open>us-east1-b\<close> has two pages.
\<close>

definition exCloud :: "nat GCECloud" where
  "exCloud =
     \<lparr>Project = ''p1'',
      Zones = Inr [''us-east1-b''],
      FindInstanceTemplates = (\<lambda>clusterName. Inr [exTemplate]),
      ListInstanceGroupManagers = (\<lambda>project zoneName. [Inr [exForeignMIG], Inr [exMIG]]),
      ListManagedInstances = (\<lambda>mig. Inr exInstances),
      DeleteInstanceGroupManager = (\<lambda>mig s. (None, Suc s)),
      DeleteInstanceTemplate = (\<lambda>t s. (None, Suc s))\<rparr>"

definition exError :: error where
  "exError = ProviderError ''googleapi: Error 503''"

definition exDeclared :: "InstanceGroup list" where
  "exDeclared = [exNodes, exMasters, exPoolDot, exPoolDash]"

text \<open>Clouds on which one listing call fails, and one with an ambiguous live group.\<close>

definition exCloudNoTemplates :: "nat GCECloud" where
  "exCloudNoTemplates = exCloud\<lparr>FindInstanceTemplates := \<lambda>clusterName. Inl exError\<rparr>"

definition exCloudNoZones :: "nat GCECloud" where
  "exCloudNoZones = exCloud\<lparr>Zones := Inl exError\<rparr>"

definition exCloudPageFails :: "nat GCECloud" where
  "exCloudPageFails =
     exCloud\<lparr>ListInstanceGroupManagers := \<lambda>project zoneName. [Inr [exMIG], Inl exError]\<rparr>"

definition exCloudInstancesFail :: "nat GCECloud" where
  "exCloudInstancesFail = exCloud\<lparr>ListManagedInstances := \<lambda>mig. Inl exError\<rparr>"

definition exCloudAmbiguous :: "nat GCECloud" where
  "exCloudAmbiguous =
     exCloud\<lparr>ListInstanceGroupManagers := \<lambda>project zoneName. [Inr [exMIG], Inr [exPoolMIG]]\<rparr>"

text \<open>The record that discovery builds for the live group of \<open>nodes\<close>.\<close>

definition exDiscovered :: "ClusterNode CloudInstanceGroup" where
  "exDiscovered =
     \<lparr>HumanName = ''us-east1-b-nodes-c1'', cig_InstanceGroup = Some exNodes,
      Ready = [\<lparr>ID = ''instances/a'', Node = Some exNode1\<rparr>,
               \<lparr>ID = ''instances/b'', Node = None\<rparr>],
      NeedUpdate = [\<lparr>ID = ''instances/c'', Node = None\<rparr>,
                    \<lparr>ID = ''instances/d'', Node = None\<rparr>],
      MinSize = 3, MaxSize = 3,
      Raw = RawInstanceGroupManager exMIG\<rparr>"









section \<open>Properties of matching\<close>

lemma collectMatches_filter:
  "collectMatches sn mig c igs matches = matches @ filter (derivesName sn mig c) igs"
  by (induction igs arbitrary: matches) (simp_all add: derivesName_def Let_def)

text \<open>
  C1. \<open>matchInstanceGroup\<close> returns the declared group whose derived name (for the live
  group's zone) is the live group's name when exactly one declared group derives it;
  absent and no error when none does; and, when two or more do, no group and the error
  that names the live group.
\<close>

theorem matchInstanceGroup_cardinality:
  "(filter (derivesName sn mig c) igs = [] \<longrightarrow>
      matchInstanceGroup sn mig c igs = (None, None)) \<and>
   (filter (derivesName sn mig c) igs = [ig] \<longrightarrow>
      matchInstanceGroup sn mig c igs = (Some ig, None)) \<and>
   (2 \<le> length (filter (derivesName sn mig c) igs) \<longrightarrow>
      matchInstanceGroup sn mig c igs =
        (None, Some (Errorf_q ''found multiple instance groups matching MIG %q'' (igm_Name mig))))"
  by (simp add: matchInstanceGroup_def collectMatches_filter Let_def)

theorem matchInstanceGroup_cardinality_witness:
  "(filter (derivesName SafeObjectName exMIG exCluster) [exMasters] = [] \<and>
      matchInstanceGroup SafeObjectName exMIG exCluster [exMasters] = (None, None)) \<and>
   (filter (derivesName SafeObjectName exMIG exCluster) [exMasters, exNodes] = [exNodes] \<and>
      matchInstanceGroup SafeObjectName exMIG exCluster [exMasters, exNodes] = (Some exNodes, None)) \<and>
   (2 \<le> length (filter (derivesName SafeObjectName exPoolMIG exCluster)
                    [exPoolDot, exMasters, exPoolDash]) \<and>
      matchInstanceGroup SafeObjectName exPoolMIG exCluster [exPoolDot, exMasters, exPoolDash] =
        (None, Some (Errorf_q ''found multiple instance groups matching MIG %q''
           ''us-east1-b-pool-a-c1'')))"
  using matchInstanceGroup_cardinality [of SafeObjectName exMIG exCluster "[exMasters]"]
    matchInstanceGroup_cardinality [of SafeObjectName exMIG exCluster "[exMasters, exNodes]" exNodes]
    matchInstanceGroup_cardinality [of SafeObjectName exPoolMIG exCluster
      "[exPoolDot, exMasters, exPoolDash]"]
  by (simp add: derivesName_def NameForInstanceGroupManager_def SafeObjectName_def dashed_def
      exMIG_def exPoolMIG_def exCluster_def exNodes_def exMasters_def exPoolDot_def exPoolDash_def)

section \<open>Properties of classification\<close>

lemma classifyInstances_Ready:
  "Ready (classifyInstances nodes latest instances g) =
     Ready g @ map (newMember nodes) (filter (hasLatestTemplate latest) instances)"
  by (induction instances arbitrary: g) (simp_all add: classifyInstance_def Let_def)

lemma classifyInstances_NeedUpdate:
  "NeedUpdate (classifyInstances nodes latest instances g) =
     NeedUpdate g @ map (newMember nodes) (filter (\<lambda>i. \<not> hasLatestTemplate latest i) instances)"
  by (induction instances arbitrary: g) (simp_all add: classifyInstance_def Let_def)

lemma classifyInstances_frame:
  "HumanName (classifyInstances nodes latest instances g) = HumanName g \<and>
   cig_InstanceGroup (classifyInstances nodes latest instances g) = cig_InstanceGroup g \<and>
   MinSize (classifyInstances nodes latest instances g) = MinSize g \<and>
   MaxSize (classifyInstances nodes latest instances g) = MaxSize g \<and>
   Raw (classifyInstances nodes latest instances g) = Raw g"
  by (induction instances arbitrary: g) (simp_all add: classifyInstance_def Let_def)

lemma processInstanceGroupManager_matched:
  assumes "instanceTemplates (igm_InstanceTemplate mig) = Some t"
    and "matchInstanceGroup sn mig cluster igs = (Some ig, None)"
    and "ListManagedInstances c mig = Inr instances"
  shows "processInstanceGroupManager sn c cluster igs warn nodes instanceTemplates mig groups =
     (None, groups(igm_Name mig \<mapsto>
        classifyInstances nodes (igm_InstanceTemplate mig) instances
          \<lparr>HumanName = igm_Name mig, cig_InstanceGroup = Some ig, Ready = [], NeedUpdate = [],
           MinSize = int_of_int64 (igm_TargetSize mig), MaxSize = int_of_int64 (igm_TargetSize mig),
           Raw = RawInstanceGroupManager mig\<rparr>))"
  using assms by (simp add: processInstanceGroupManager_def Let_def)

lemma filter_partition_mset:
  "mset (map f (filter P xs)) + mset (map f (filter (\<lambda>x. \<not> P x) xs)) = mset (map f xs)"
  by (induction xs) simp_all

text \<open>
  C2. For a live group that discovery matches, the members built from its instances are
  split between \<open>Ready\<close> and \<open>NeedUpdate\<close>, in the order of the listing: \<open>Ready\<close> holds
  the members of the instances that have a recorded version whose template is the group's
  current template, \<open>NeedUpdate\<close> those of all the others, also of the instances with no
  recorded version. Every instance gives one member to exactly one of the two.
\<close>

theorem classification_partition:
  assumes "instanceTemplates (igm_InstanceTemplate mig) = Some t"
    and "matchInstanceGroup sn mig cluster igs = (Some ig, None)"
    and "ListManagedInstances c mig = Inr instances"
  shows "\<exists>g. processInstanceGroupManager sn c cluster igs warn nodes instanceTemplates mig groups =
            (None, groups(igm_Name mig \<mapsto> g)) \<and>
         Ready g = map (newMember nodes)
           (filter (hasLatestTemplate (igm_InstanceTemplate mig)) instances) \<and>
         NeedUpdate g = map (newMember nodes)
           (filter (\<lambda>i. \<not> hasLatestTemplate (igm_InstanceTemplate mig) i) instances) \<and>
         mset (Ready g) + mset (NeedUpdate g) = mset (map (newMember nodes) instances) \<and>
         (\<forall>i. hasLatestTemplate (igm_InstanceTemplate mig) i =
            (\<exists>v. mi_Version i = Some v \<and> miv_InstanceTemplate v = igm_InstanceTemplate mig))"
proof -
  let ?g = "classifyInstances nodes (igm_InstanceTemplate mig) instances
          \<lparr>HumanName = igm_Name mig, cig_InstanceGroup = Some ig, Ready = [], NeedUpdate = [],
           MinSize = int_of_int64 (igm_TargetSize mig), MaxSize = int_of_int64 (igm_TargetSize mig),
           Raw = RawInstanceGroupManager mig\<rparr>"
  have r: "Ready ?g = map (newMember nodes)
           (filter (hasLatestTemplate (igm_InstanceTemplate mig)) instances)"
    by (simp add: classifyInstances_Ready)
  have n: "NeedUpdate ?g = map (newMember nodes)
           (filter (\<lambda>i. \<not> hasLatestTemplate (igm_InstanceTemplate mig) i) instances)"
    by (simp add: classifyInstances_NeedUpdate)
  have m: "mset (Ready ?g) + mset (NeedUpdate ?g) = mset (map (newMember nodes) instances)"
    unfolding r n by (rule filter_partition_mset)
  have h: "\<forall>i. hasLatestTemplate (igm_InstanceTemplate mig) i =
            (\<exists>v. mi_Version i = Some v \<and> miv_InstanceTemplate v = igm_InstanceTemplate mig)"
    by (auto simp: hasLatestTemplate_def split: option.splits)
  have p: "processInstanceGroupManager sn c cluster igs warn nodes instanceTemplates mig groups =
            (None, groups(igm_Name mig \<mapsto> ?g))"
    using assms by (rule processInstanceGroupManager_matched)
  from p r n m h show ?thesis by blast
qed

lemma exMIG_owned: "indexTemplates [exTemplate] (igm_InstanceTemplate exMIG) = Some exTemplate"
  by (simp add: indexTemplates_def exTemplate_def exMIG_def)

lemma exMIG_matched:
  "matchInstanceGroup SafeObjectName exMIG exCluster [exMasters, exNodes] = (Some exNodes, None)"
  by (simp add: matchInstanceGroup_def NameForInstanceGroupManager_def SafeObjectName_def dashed_def
      exMIG_def exCluster_def exNodes_def exMasters_def)

lemma exMIG_instances: "ListManagedInstances exCloud exMIG = Inr exInstances"
  by (simp add: exCloud_def)

theorem classification_partition_witness:
  "indexTemplates [exTemplate] (igm_InstanceTemplate exMIG) = Some exTemplate \<and>
   matchInstanceGroup SafeObjectName exMIG exCluster [exMasters, exNodes] = (Some exNodes, None) \<and>
   ListManagedInstances exCloud exMIG = Inr exInstances \<and>
   (\<exists>g. processInstanceGroupManager SafeObjectName exCloud exCluster [exMasters, exNodes] False
           (nodeMapByExternalID [exNode1]) (indexTemplates [exTemplate]) exMIG Map.empty =
           (None, [''us-east1-b-nodes-c1'' \<mapsto> g]) \<and>
        Ready g = [\<lparr>ID = ''instances/a'', Node = Some exNode1\<rparr>,
                   \<lparr>ID = ''instances/b'', Node = None\<rparr>] \<and>
        NeedUpdate g = [\<lparr>ID = ''instances/c'', Node = None\<rparr>,
                        \<lparr>ID = ''instances/d'', Node = None\<rparr>])"
proof -
  have fmt: "FormatUint 1001 = ''1001''" "FormatUint 1002 = ''1002''"
    "FormatUint 1003 = ''1003''" "FormatUint 1004 = ''1004''"
    by (simp_all add: FormatUint_def decimalDigits.simps)
  from classification_partition [of "indexTemplates [exTemplate]" exMIG exTemplate SafeObjectName
      exCluster "[exMasters, exNodes]" exNodes exCloud exInstances False
      "nodeMapByExternalID [exNode1]" Map.empty, OF exMIG_owned exMIG_matched exMIG_instances]
  obtain g where g: "processInstanceGroupManager SafeObjectName exCloud exCluster [exMasters, exNodes] False
           (nodeMapByExternalID [exNode1]) (indexTemplates [exTemplate]) exMIG Map.empty =
           (None, [igm_Name exMIG \<mapsto> g])"
     "Ready g = map (newMember (nodeMapByExternalID [exNode1]))
           (filter (hasLatestTemplate (igm_InstanceTemplate exMIG)) exInstances)"
     "NeedUpdate g = map (newMember (nodeMapByExternalID [exNode1]))
           (filter (\<lambda>i. \<not> hasLatestTemplate (igm_InstanceTemplate exMIG) i) exInstances)"
    by blast
  have "Ready g = [\<lparr>ID = ''instances/a'', Node = Some exNode1\<rparr>,
                   \<lparr>ID = ''instances/b'', Node = None\<rparr>]"
    by (simp add: g(2) fmt hasLatestTemplate_def newMember_def nodeMapByExternalID_def exMIG_def
        exInstances_def exInstance1_def exInstance2_def exInstance3_def exInstance4_def exNode1_def)
  moreover have "NeedUpdate g = [\<lparr>ID = ''instances/c'', Node = None\<rparr>,
                        \<lparr>ID = ''instances/d'', Node = None\<rparr>]"
    by (simp add: g(3) fmt hasLatestTemplate_def newMember_def nodeMapByExternalID_def exMIG_def
        exInstances_def exInstance1_def exInstance2_def exInstance3_def exInstance4_def exNode1_def)
  moreover have "igm_Name exMIG = ''us-east1-b-nodes-c1''"
    by (simp add: exMIG_def)
  ultimately show ?thesis
    using g(1) exMIG_owned exMIG_matched exMIG_instances by auto
qed

section \<open>Properties of deletion\<close>

lemma traced_DeleteInstanceGroupManager:
  "DeleteInstanceGroupManager (traced c) mig (s, log) =
     (fst (DeleteInstanceGroupManager c mig s),
      (snd (DeleteInstanceGroupManager c mig s), log @ [CallDeleteInstanceGroupManager mig]))"
  by (simp add: traced_def split: prod.splits)

lemma traced_DeleteInstanceTemplate:
  "DeleteInstanceTemplate (traced c) t (s, log) =
     (fst (DeleteInstanceTemplate c t s),
      (snd (DeleteInstanceTemplate c t s), log @ [CallDeleteInstanceTemplate t]))"
  by (simp add: traced_def split: prod.splits)

text \<open>
  C3. When the deletion of the managed group fails, \<open>deleteCloudInstanceGroup\<close> returns
  that error and leaves the provider in the state the failed call left it in; on the
  cloud that logs its calls, the log has grown by the deletion of the managed group and
  by nothing else: the deletion of the template was not called.
\<close>

theorem deleteCloudInstanceGroup_group_step_fails:
  assumes "Raw g = RawInstanceGroupManager mig"
    and "DeleteInstanceGroupManager c mig s = (Some err, s')"
  shows "deleteCloudInstanceGroup c g s = Returns (Some err, s') \<and>
         deleteCloudInstanceGroup (traced c) g (s, log) =
           Returns (Some err, (s', log @ [CallDeleteInstanceGroupManager mig]))"
  using assms
  by (simp add: deleteCloudInstanceGroup_def traced_DeleteInstanceGroupManager)

theorem deleteCloudInstanceGroup_group_step_fails_witness:
  "Raw exDiscovered = RawInstanceGroupManager exMIG \<and>
   DeleteInstanceGroupManager (exCloud\<lparr>DeleteInstanceGroupManager := \<lambda>mig s. (Some exError, s)\<rparr>)
     exMIG 0 = (Some exError, 0) \<and>
   deleteCloudInstanceGroup
     (traced (exCloud\<lparr>DeleteInstanceGroupManager := \<lambda>mig s. (Some exError, s)\<rparr>)) exDiscovered (0, []) =
     Returns (Some exError, (0, [CallDeleteInstanceGroupManager exMIG]))"
  using deleteCloudInstanceGroup_group_step_fails
    [of exDiscovered exMIG "exCloud\<lparr>DeleteInstanceGroupManager := \<lambda>mig s. (Some exError, s)\<rparr>"
      0 exError 0 "[]"]
  by (simp add: exDiscovered_def exCloud_def)

text \<open>
  C4. When the deletion of the managed group succeeds, \<open>deleteCloudInstanceGroup\<close> calls
  the deletion of the template the managed group refers to, in the state the first call
  left, and returns what that call returns, success or error; on the cloud that logs its
  calls, the log has grown by the two calls, in this order.
\<close>

theorem deleteCloudInstanceGroup_template_step:
  assumes "Raw g = RawInstanceGroupManager mig"
    and "DeleteInstanceGroupManager c mig s = (None, s1)"
    and "DeleteInstanceTemplate c (igm_InstanceTemplate mig) s1 = (r, s2)"
  shows "deleteCloudInstanceGroup c g s = Returns (r, s2) \<and>
         deleteCloudInstanceGroup (traced c) g (s, log) =
           Returns (r, (s2, log @ [CallDeleteInstanceGroupManager mig,
                                   CallDeleteInstanceTemplate (igm_InstanceTemplate mig)]))"
  using assms
  by (simp add: deleteCloudInstanceGroup_def traced_DeleteInstanceGroupManager
      traced_DeleteInstanceTemplate)

theorem deleteCloudInstanceGroup_template_step_witness:
  "Raw exDiscovered = RawInstanceGroupManager exMIG \<and>
   DeleteInstanceGroupManager exCloud exMIG 0 = (None, 1) \<and>
   DeleteInstanceTemplate exCloud (igm_InstanceTemplate exMIG) 1 = (None, 2) \<and>
   deleteCloudInstanceGroup (traced exCloud) exDiscovered (0, []) =
     Returns (None, (2, [CallDeleteInstanceGroupManager exMIG,
                         CallDeleteInstanceTemplate ''templates/nodes-2''])) \<and>
   DeleteInstanceTemplate (exCloud\<lparr>DeleteInstanceTemplate := \<lambda>t s. (Some exError, s)\<rparr>)
     (igm_InstanceTemplate exMIG) 1 = (Some exError, 1) \<and>
   deleteCloudInstanceGroup
     (traced (exCloud\<lparr>DeleteInstanceTemplate := \<lambda>t s. (Some exError, s)\<rparr>)) exDiscovered (0, []) =
     Returns (Some exError, (1, [CallDeleteInstanceGroupManager exMIG,
                                 CallDeleteInstanceTemplate ''templates/nodes-2'']))"
  using deleteCloudInstanceGroup_template_step
      [of exDiscovered exMIG exCloud 0 1 None 2 "[]"]
    deleteCloudInstanceGroup_template_step
      [of exDiscovered exMIG "exCloud\<lparr>DeleteInstanceTemplate := \<lambda>t s. (Some exError, s)\<rparr>"
        0 1 "Some exError" 1 "[]"]
  by (simp add: exDiscovered_def exCloud_def exMIG_def)

section \<open>Properties of the discovery loops\<close>


lemma processInstanceGroupManager_unowned:
  "instanceTemplates (igm_InstanceTemplate mig) = None \<Longrightarrow>
   processInstanceGroupManager sn c cluster igs warn nodes instanceTemplates mig groups = (None, groups)"
  by (simp add: processInstanceGroupManager_def)


lemma processInstanceGroupManager_listing_fails:
  "instanceTemplates (igm_InstanceTemplate mig) = Some t \<Longrightarrow>
   matchInstanceGroup sn mig cluster igs = (Some ig, None) \<Longrightarrow>
   ListManagedInstances c mig = Inl err \<Longrightarrow>
   fst (processInstanceGroupManager sn c cluster igs warn nodes instanceTemplates mig groups) = Some err"
  by (simp add: processInstanceGroupManager_def Let_def)


lemma processPage_fails:
  assumes "mig \<in> set items"
    and "\<And>groups. fst (processInstanceGroupManager sn c cluster igs warn nodes its mig groups) \<noteq> None"
  shows "fst (processPage sn c cluster igs warn nodes its items groups) \<noteq> None"
  using assms(1)
proof (induction items arbitrary: groups)
  case Nil
  then show ?case by simp
next
  case (Cons a items)
  show ?case
  proof (cases "processInstanceGroupManager sn c cluster igs warn nodes its a groups")
    case (Pair e groups')
    show ?thesis
    proof (cases e)
      case None
      with Pair assms(2) [of groups] have "a \<noteq> mig" by auto
      with Cons.prems have "mig \<in> set items" by simp
      from Cons.IH [OF this] Pair None show ?thesis by simp
    next
      case (Some err)
      with Pair show ?thesis by simp
    qed
  qed
qed


lemma Pages_fetch_fails:
  "Inl e \<in> set pages \<Longrightarrow> fst (Pages pages f acc) \<noteq> None"
proof (induction pages arbitrary: acc)
  case Nil
  then show ?case by simp
next
  case (Cons p pages)
  show ?case
  proof (cases p)
    case (Inl e')
    then show ?thesis by simp
  next
    case (Inr page)
    with Cons.prems have "Inl e \<in> set pages" by auto
    from Cons.IH [OF this] Inr show ?thesis
      by (cases "f page acc") (simp split: option.splits)
  qed
qed

lemma Pages_callback_fails:
  assumes "Inr page \<in> set pages" and "\<And>acc. fst (f page acc) \<noteq> None"
  shows "fst (Pages pages f acc) \<noteq> None"
  using assms(1)
proof (induction pages arbitrary: acc)
  case Nil
  then show ?case by simp
next
  case (Cons p pages)
  show ?case
  proof (cases p)
    case (Inl e')
    then show ?thesis by simp
  next
    case (Inr page')
    show ?thesis
    proof (cases "f page' acc")
      case (Pair e acc')
      show ?thesis
      proof (cases e)
        case None
        with Pair assms(2) [of acc] have "page' \<noteq> page" by auto
        with Cons.prems Inr have "Inr page \<in> set pages" by simp
        from Cons.IH [OF this] Pair None Inr show ?thesis by simp
      next
        case (Some err)
        with Pair Inr show ?thesis by simp
      qed
    qed
  qed
qed


lemma listZones_shape:
  "(\<exists>groups'. listZones sn c cluster igs warn nodes its project zones groups = (Some groups', None)) \<or>
   (\<exists>e. listZones sn c cluster igs warn nodes its project zones groups =
      (None, Some (Errorf_v ''error listing InstanceGroupManagers: %v'' e)))"
  by (induction zones arbitrary: groups) (auto split: prod.splits option.splits)

lemma listZones_fails:
  assumes "z \<in> set zones"
    and "\<And>groups. fst (Pages (ListInstanceGroupManagers c project z)
            (processPage sn c cluster igs warn nodes its) groups) \<noteq> None"
  shows "\<exists>e. listZones sn c cluster igs warn nodes its project zones groups =
      (None, Some (Errorf_v ''error listing InstanceGroupManagers: %v'' e))"
  using assms(1)
proof (induction zones arbitrary: groups)
  case Nil
  then show ?case by simp
next
  case (Cons a zones)
  show ?case
  proof (cases "Pages (ListInstanceGroupManagers c project a)
            (processPage sn c cluster igs warn nodes its) groups")
    case (Pair e groups')
    show ?thesis
    proof (cases e)
      case None
      with Pair assms(2) [of groups] have "a \<noteq> z" by auto
      with Cons.prems have "z \<in> set zones" by simp
      from Cons.IH [OF this] Pair None show ?thesis by simp
    next
      case (Some err)
      with Pair show ?thesis by simp
    qed
  qed
qed

lemma getCloudGroups_listed:
  assumes "FindInstanceTemplates c (cluster_Name cluster) = Inr templates"
    and "Zones c = Inr zones"
  shows "getCloudGroups sn gnm c cluster igs warn nodes =
     listZones sn c cluster igs warn (gnm nodes) (indexTemplates templates) (Project c) zones Map.empty"
  using assms by (simp add: getCloudGroups_def)

subsection \<open>What the loops keep true of the map\<close>

lemma Pages_invariant:
  assumes "\<And>page acc e acc'. I acc \<Longrightarrow> f page acc = (e, acc') \<Longrightarrow> I acc'"
    and "I acc"
    and "Pages pages f acc = (e, acc')"
  shows "I acc'"
  using assms(2,3)
proof (induction pages arbitrary: acc)
  case Nil
  then show ?case by simp
next
  case (Cons p pages)
  show ?case
  proof (cases p)
    case (Inl err)
    with Cons.prems show ?thesis by simp
  next
    case (Inr page)
    obtain e1 acc1 where f: "f page acc = (e1, acc1)" by (cases "f page acc")
    from assms(1) [OF Cons.prems(1) f] have I1: "I acc1" .
    show ?thesis
    proof (cases e1)
      case None
      with Cons.prems(2) Inr f have "Pages pages f acc1 = (e, acc')" by simp
      from Cons.IH [OF I1 this] show ?thesis .
    next
      case (Some err)
      with Cons.prems(2) Inr f I1 show ?thesis by simp
    qed
  qed
qed

lemma processPage_invariant:
  assumes "\<And>mig groups e groups'. I groups \<Longrightarrow>
      processInstanceGroupManager sn c cluster igs warn nodes its mig groups = (e, groups') \<Longrightarrow>
      I groups'"
    and "I groups"
    and "processPage sn c cluster igs warn nodes its items groups = (e, groups')"
  shows "I groups'"
  using assms(2,3)
proof (induction items arbitrary: groups)
  case Nil
  then show ?case by simp
next
  case (Cons mig items)
  obtain e1 groups1 where
    step: "processInstanceGroupManager sn c cluster igs warn nodes its mig groups = (e1, groups1)"
    by (cases "processInstanceGroupManager sn c cluster igs warn nodes its mig groups")
  from assms(1) [OF Cons.prems(1) step] have I1: "I groups1" .
  show ?case
  proof (cases e1)
    case None
    with Cons.prems(2) step
    have "processPage sn c cluster igs warn nodes its items groups1 = (e, groups')" by simp
    from Cons.IH [OF I1 this] show ?thesis .
  next
    case (Some err)
    with Cons.prems(2) step I1 show ?thesis by simp
  qed
qed

lemma listZones_invariant:
  assumes "\<And>mig groups e groups'. I groups \<Longrightarrow>
      processInstanceGroupManager sn c cluster igs warn nodes its mig groups = (e, groups') \<Longrightarrow>
      I groups'"
    and "I groups"
    and "listZones sn c cluster igs warn nodes its project zones groups = (Some groups', None)"
  shows "I groups'"
  using assms(2,3)
proof (induction zones arbitrary: groups)
  case Nil
  then show ?case by simp
next
  case (Cons z zones)
  let ?f = "processPage sn c cluster igs warn nodes its"
  obtain e1 groups1 where
    pages: "Pages (ListInstanceGroupManagers c project z) ?f groups = (e1, groups1)"
    by (cases "Pages (ListInstanceGroupManagers c project z) ?f groups")
  have "I groups1"
  proof (rule Pages_invariant [where I = I, OF _ Cons.prems(1) pages])
    fix page acc e acc'
    assume "I acc" and "?f page acc = (e, acc')"
    with assms(1) show "I acc'" by (rule processPage_invariant)
  qed
  moreover from Cons.prems(2) pages
  have "e1 = None \<and> listZones sn c cluster igs warn nodes its project zones groups1 = (Some groups', None)"
    by (cases e1) simp_all
  ultimately show ?case using Cons.IH by blast
qed

lemma processInstanceGroupManager_builtEntry:
  assumes "\<forall>name g. (groups :: 'node groups) name = Some g \<longrightarrow> builtEntry its name g"
    and "processInstanceGroupManager sn c cluster igs warn nodes its mig groups = (e, groups')"
  shows "\<forall>name g. groups' name = Some g \<longrightarrow> builtEntry its name g"
proof (cases "its (igm_InstanceTemplate mig)")
  case None
  with assms show ?thesis by (simp add: processInstanceGroupManager_def)
next
  case (Some t)
  obtain r err where m: "matchInstanceGroup sn mig cluster igs = (r, err)"
    by (cases "matchInstanceGroup sn mig cluster igs")
  show ?thesis
  proof (cases err)
    case (Some a)
    with assms \<open>its (igm_InstanceTemplate mig) = Some t\<close> m show ?thesis
      by (auto simp: processInstanceGroupManager_def Let_def split: option.splits)
  next
    case None
    show ?thesis
    proof (cases r)
      case None
      with assms \<open>its (igm_InstanceTemplate mig) = Some t\<close> m \<open>err = None\<close> show ?thesis
        by (simp add: processInstanceGroupManager_def)
    next
      case (Some ig)
      let ?g0 = "\<lparr>HumanName = igm_Name mig, cig_InstanceGroup = Some ig, Ready = [],
           NeedUpdate = [], MinSize = int_of_int64 (igm_TargetSize mig),
           MaxSize = int_of_int64 (igm_TargetSize mig), Raw = RawInstanceGroupManager mig\<rparr>
           :: 'node CloudInstanceGroup"
      have b: "builtEntry its (igm_Name mig) (classifyInstances nodes latest instances ?g0)"
        for latest instances
        using \<open>its (igm_InstanceTemplate mig) = Some t\<close>
        by (simp add: builtEntry_def classifyInstances_frame int_of_int64_def)
      have b0: "builtEntry its (igm_Name mig) ?g0"
        using \<open>its (igm_InstanceTemplate mig) = Some t\<close>
        by (simp add: builtEntry_def int_of_int64_def)
      show ?thesis
      proof (cases "ListManagedInstances c mig")
        case (Inl a)
        with assms \<open>its (igm_InstanceTemplate mig) = Some t\<close> m \<open>err = None\<close> Some b0
        show ?thesis
          by (auto simp: processInstanceGroupManager_def Let_def split: if_splits)
      next
        case (Inr instances)
        with assms \<open>its (igm_InstanceTemplate mig) = Some t\<close> m \<open>err = None\<close> Some b
        show ?thesis
          by (auto simp: processInstanceGroupManager_def Let_def split: if_splits)
      qed
    qed
  qed
qed

lemma getCloudGroups_builtEntry:
  assumes "FindInstanceTemplates c (cluster_Name cluster) = Inr templates"
    and "getCloudGroups sn gnm c cluster igs warn (nodes :: 'node list) = (Some groups, None)"
    and "groups name = Some g"
  shows "builtEntry (indexTemplates templates) name g"
proof -
  obtain zones where zones: "Zones c = Inr zones"
    using assms(1,2) by (cases "Zones c") (simp_all add: getCloudGroups_def)
  have l: "listZones sn c cluster igs warn (gnm nodes) (indexTemplates templates) (Project c)
      zones Map.empty = (Some groups, None)"
    using assms(2) by (simp add: getCloudGroups_listed [OF assms(1) zones])
  have "\<forall>name g. groups name = Some g \<longrightarrow> builtEntry (indexTemplates templates) name g"
  proof (rule listZones_invariant [where I = "\<lambda>groups. \<forall>name g. groups name = Some g \<longrightarrow>
      builtEntry (indexTemplates templates) name g", OF _ _ l])
    show "\<forall>name g. (Map.empty :: 'node groups) name = Some g \<longrightarrow>
        builtEntry (indexTemplates templates) name g"
      by simp
  next
    fix mig e and groups groups' :: "'node groups"
    assume "\<forall>name g. groups name = Some g \<longrightarrow> builtEntry (indexTemplates templates) name g"
      and "processInstanceGroupManager sn c cluster igs warn (gnm nodes)
          (indexTemplates templates) mig groups = (e, groups')"
    then show "\<forall>name g. groups' name = Some g \<longrightarrow> builtEntry (indexTemplates templates) name g"
      by (rule processInstanceGroupManager_builtEntry)
  qed
  with assms(3) show ?thesis by blast
qed

lemma processInstanceGroupManager_dom:
  assumes "name \<in> dom groups"
    and "processInstanceGroupManager sn c cluster igs warn nodes its mig groups = (e, groups')"
  shows "name \<in> dom groups'"
  using assms
  by (auto simp: processInstanceGroupManager_def Let_def
      split: option.splits sum.splits prod.splits if_splits)

lemma processInstanceGroupManager_inserts:
  assumes "its (igm_InstanceTemplate mig) = Some t"
    and "matchInstanceGroup sn mig cluster igs = (Some ig, None)"
    and "processInstanceGroupManager sn c cluster igs warn nodes its mig groups = (None, groups')"
  shows "igm_Name mig \<in> dom groups'"
  using assms
  by (auto simp: processInstanceGroupManager_def Let_def split: sum.splits)

lemma processPage_inserts:
  assumes "its (igm_InstanceTemplate mig) = Some t"
    and "matchInstanceGroup sn mig cluster igs = (Some ig, None)"
    and "mig \<in> set items"
    and "processPage sn c cluster igs warn nodes its items groups = (None, groups')"
  shows "igm_Name mig \<in> dom groups'"
  using assms(3,4)
proof (induction items arbitrary: groups)
  case Nil
  then show ?case by simp
next
  case (Cons a items)
  obtain e1 groups1 where
    step: "processInstanceGroupManager sn c cluster igs warn nodes its a groups = (e1, groups1)"
    by (cases "processInstanceGroupManager sn c cluster igs warn nodes its a groups")
  with Cons.prems(2) have e1: "e1 = None"
    and rest: "processPage sn c cluster igs warn nodes its items groups1 = (None, groups')"
    by (cases e1; simp)+
  show ?case
  proof (cases "a = mig")
    case True
    with step e1 have "igm_Name mig \<in> dom groups1"
      using processInstanceGroupManager_inserts [where its = its, OF assms(1,2)] by blast
    then show ?thesis
      using rest
      by (rule processPage_invariant [where I = "\<lambda>groups. igm_Name mig \<in> dom groups", rotated 1])
        (rule processInstanceGroupManager_dom)
  next
    case False
    with Cons.prems(1) have "mig \<in> set items" by simp
    from Cons.IH [OF this rest] show ?thesis .
  qed
qed

lemma Pages_inserts:
  assumes "its (igm_InstanceTemplate mig) = Some t"
    and "matchInstanceGroup sn mig cluster igs = (Some ig, None)"
    and "mig \<in> set page"
    and "Inr page \<in> set pages"
    and "Pages pages (processPage sn c cluster igs warn nodes its) groups = (None, groups')"
  shows "igm_Name mig \<in> dom groups'"
  using assms(4,5)
proof (induction pages arbitrary: groups)
  case Nil
  then show ?case by simp
next
  case (Cons p pages)
  let ?f = "processPage sn c cluster igs warn nodes its"
  from Cons.prems(2) obtain page1 where p: "p = Inr page1"
    by (cases p) simp_all
  obtain e1 groups1 where f: "?f page1 groups = (e1, groups1)"
    by (cases "?f page1 groups")
  with Cons.prems(2) p have e1: "e1 = None" and rest: "Pages pages ?f groups1 = (None, groups')"
    by (cases e1; simp)+
  show ?case
  proof (cases "page1 = page")
    case True
    with f e1 have "igm_Name mig \<in> dom groups1"
      using processPage_inserts [where its = its, OF assms(1,2,3)] by blast
    then show ?thesis
      using rest
    proof (rule Pages_invariant [where I = "\<lambda>groups. igm_Name mig \<in> dom groups", rotated 1])
      fix page acc e acc'
      assume "igm_Name mig \<in> dom acc" and "?f page acc = (e, acc')"
      then show "igm_Name mig \<in> dom acc'"
        by (rule processPage_invariant [where I = "\<lambda>groups. igm_Name mig \<in> dom groups", rotated 1])
          (rule processInstanceGroupManager_dom)
    qed
  next
    case False
    with Cons.prems(1) p have "Inr page \<in> set pages" by simp
    from Cons.IH [OF this rest] show ?thesis .
  qed
qed

lemma listZones_inserts:
  assumes "its (igm_InstanceTemplate mig) = Some t"
    and "matchInstanceGroup sn mig cluster igs = (Some ig, None)"
    and "mig \<in> set page"
    and "Inr page \<in> set (ListInstanceGroupManagers c project zoneName)"
    and "zoneName \<in> set zones"
    and "listZones sn c cluster igs warn nodes its project zones groups = (Some groups', None)"
  shows "igm_Name mig \<in> dom groups'"
  using assms(5,6)
proof (induction zones arbitrary: groups)
  case Nil
  then show ?case by simp
next
  case (Cons z zones)
  let ?f = "processPage sn c cluster igs warn nodes its"
  obtain e1 groups1 where
    pages: "Pages (ListInstanceGroupManagers c project z) ?f groups = (e1, groups1)"
    by (cases "Pages (ListInstanceGroupManagers c project z) ?f groups")
  with Cons.prems(2) have e1: "e1 = None"
    and rest: "listZones sn c cluster igs warn nodes its project zones groups1 = (Some groups', None)"
    by (cases e1; simp)+
  show ?case
  proof (cases "z = zoneName")
    case True
    with pages e1 have "igm_Name mig \<in> dom groups1"
      using Pages_inserts [where its = its, OF assms(1,2,3,4)] by blast
    then show ?thesis
      using rest
      by (rule listZones_invariant [where I = "\<lambda>groups. igm_Name mig \<in> dom groups", rotated 1])
        (rule processInstanceGroupManager_dom)
  next
    case False
    with Cons.prems(1) have "zoneName \<in> set zones" by simp
    from Cons.IH [OF this rest] show ?thesis .
  qed
qed

subsection \<open>Leaving out the managed groups on other templates\<close>

lemma processPage_filter_owned:
  "processPage sn c cluster igs warn nodes its
     (filter (\<lambda>mig. its (igm_InstanceTemplate mig) \<noteq> None) items) groups =
   processPage sn c cluster igs warn nodes its items groups"
proof (induction items arbitrary: groups)
  case Nil
  then show ?case by simp
next
  case (Cons mig items)
  then show ?case
    by (cases "its (igm_InstanceTemplate mig)")
      (simp_all add: processInstanceGroupManager_unowned split: prod.splits option.splits)
qed

lemma Pages_filter:
  assumes "\<And>page acc. f (filter P page) acc = f page acc"
  shows "Pages (map (map_sum (\<lambda>err. err) (filter P)) pages) f acc = Pages pages f acc"
proof (induction pages arbitrary: acc)
  case Nil
  then show ?case by simp
next
  case (Cons p pages)
  then show ?case
    by (cases p) (simp_all add: assms split: prod.splits option.splits)
qed

lemma processInstanceGroupManager_cloud:
  assumes "ListManagedInstances c' = ListManagedInstances c"
  shows "processInstanceGroupManager sn c' cluster igs warn nodes its mig groups =
         processInstanceGroupManager sn c cluster igs warn nodes its mig groups"
  unfolding processInstanceGroupManager_def assms ..

lemma processPage_cloud:
  assumes "ListManagedInstances c' = ListManagedInstances c"
  shows "processPage sn c' cluster igs warn nodes its items groups =
         processPage sn c cluster igs warn nodes its items groups"
  by (induction items arbitrary: groups)
    (simp_all add: processInstanceGroupManager_cloud [OF assms] split: prod.splits option.splits)

lemma listZones_filter_owned:
  assumes "ListManagedInstances c' = ListManagedInstances c"
    and "\<And>zoneName. ListInstanceGroupManagers c' project zoneName =
           map (map_sum (\<lambda>err. err) (filter (\<lambda>mig. its (igm_InstanceTemplate mig) \<noteq> None)))
             (ListInstanceGroupManagers c project zoneName)"
  shows "listZones sn c' cluster igs warn nodes its project zones groups =
         listZones sn c cluster igs warn nodes its project zones groups"
proof (induction zones arbitrary: groups)
  case Nil
  then show ?case by simp
next
  case (Cons z zones)
  have f: "processPage sn c' cluster igs warn nodes its = processPage sn c cluster igs warn nodes its"
    by (intro ext) (rule processPage_cloud [OF assms(1)])
  have "Pages (ListInstanceGroupManagers c' project z) (processPage sn c cluster igs warn nodes its) groups =
        Pages (ListInstanceGroupManagers c project z) (processPage sn c cluster igs warn nodes its) groups"
    unfolding assms(2) by (rule Pages_filter) (rule processPage_filter_owned)
  then show ?case
    by (simp add: f Cons.IH split: prod.splits option.splits)
qed

lemma getCloudGroups_withoutUnmanaged:
  "getCloudGroups sn gnm (withoutUnmanaged c cluster) cluster igs warn nodes =
   getCloudGroups sn gnm c cluster igs warn nodes"
proof (cases "FindInstanceTemplates c (cluster_Name cluster)")
  case (Inl e)
  then show ?thesis by (simp add: withoutUnmanaged_def)
next
  case (Inr templates)
  let ?c' = "withoutUnmanaged c cluster"
  have c': "FindInstanceTemplates ?c' = FindInstanceTemplates c" "Zones ?c' = Zones c"
    "Project ?c' = Project c" "ListManagedInstances ?c' = ListManagedInstances c"
    using Inr by (simp_all add: withoutUnmanaged_def)
  have l: "ListInstanceGroupManagers ?c' (Project c) zoneName =
      map (map_sum (\<lambda>err. err)
             (filter (\<lambda>mig. indexTemplates templates (igm_InstanceTemplate mig) \<noteq> None)))
        (ListInstanceGroupManagers c (Project c) zoneName)" for zoneName
    using Inr by (simp add: withoutUnmanaged_def)
  show ?thesis
  proof (cases "Zones c")
    case (Inl e)
    with Inr c' show ?thesis by (simp add: getCloudGroups_def)
  next
    case zones: (Inr zones)
    have "listZones sn ?c' cluster igs warn (gnm nodes) (indexTemplates templates) (Project c)
        zones Map.empty =
      listZones sn c cluster igs warn (gnm nodes) (indexTemplates templates) (Project c)
        zones Map.empty"
      using c'(4) l by (rule listZones_filter_owned)
    with Inr zones c' show ?thesis by (simp add: getCloudGroups_def)
  qed
qed


section \<open>The examples, evaluated\<close>

lemmas ex_defs = exCloud_def exCloudNoTemplates_def exCloudNoZones_def exCloudPageFails_def
  exCloudInstancesFail_def exCloudAmbiguous_def exCluster_def exDeclared_def exNodes_def
  exMasters_def exPoolDot_def exPoolDash_def exTemplate_def exMIG_def exForeignMIG_def
  exPoolMIG_def exInstances_def exInstance1_def exInstance2_def exInstance3_def exInstance4_def
  exNode1_def exDiscovered_def exError_def

lemmas discovery_simps = getCloudGroups_def processInstanceGroupManager_def
  matchInstanceGroup_def NameForInstanceGroupManager_def SafeObjectName_def dashed_def indexTemplates_def
  nodeMapByExternalID_def classifyInstance_def newMember_def hasLatestTemplate_def
  int_of_int64_def Let_def

lemma exFormatUint:
  "FormatUint 1001 = ''1001''" "FormatUint 1002 = ''1002''"
  "FormatUint 1003 = ''1003''" "FormatUint 1004 = ''1004''"
  by (simp_all add: FormatUint_def decimalDigits.simps)

lemma exCloud_discovery:
  "getCloudGroups SafeObjectName nodeMapByExternalID exCloud exCluster exDeclared False [exNode1] =
     (Some [''us-east1-b-nodes-c1'' \<mapsto> exDiscovered], None)"
  by (simp add: discovery_simps exFormatUint ex_defs)

lemma exCloudAmbiguous_discovery:
  "getCloudGroups SafeObjectName nodeMapByExternalID exCloudAmbiguous exCluster exDeclared False [exNode1] =
     (None, Some (Errorf_v ''error listing InstanceGroupManagers: %v''
        (Errorf_q ''error getting instance group for MIG %q'' ''us-east1-b-pool-a-c1'')))"
  by (simp add: discovery_simps exFormatUint ex_defs)

lemma exCloudPageFails_discovery:
  "getCloudGroups SafeObjectName nodeMapByExternalID exCloudPageFails exCluster exDeclared False [exNode1] =
     (None, Some (Errorf_v ''error listing InstanceGroupManagers: %v'' exError))"
  by (simp add: discovery_simps exFormatUint ex_defs)

lemma exCloudInstancesFail_discovery:
  "getCloudGroups SafeObjectName nodeMapByExternalID exCloudInstancesFail exCluster exDeclared False [exNode1] =
     (None, Some (Errorf_v ''error listing InstanceGroupManagers: %v'' exError))"
  by (simp add: discovery_simps exFormatUint ex_defs)

lemma exMIG_step:
  "processInstanceGroupManager SafeObjectName exCloud exCluster exDeclared False
     (nodeMapByExternalID [exNode1]) (indexTemplates [exTemplate]) exMIG Map.empty =
     (None, [''us-east1-b-nodes-c1'' \<mapsto> exDiscovered])"
  by (simp add: discovery_simps exFormatUint ex_defs)

lemma exMIG_facts:
  "indexTemplates [exTemplate] (igm_InstanceTemplate exMIG) = Some exTemplate"
  "matchInstanceGroup SafeObjectName exMIG exCluster exDeclared = (Some exNodes, None)"
  "indexTemplates [exTemplate] (igm_InstanceTemplate exForeignMIG) = None"
  "matchInstanceGroup SafeObjectName exForeignMIG exCluster exDeclared =
     (None, Some (Errorf_q ''found multiple instance groups matching MIG %q'' ''us-east1-b-pool-a-c1''))"
  "indexTemplates [exTemplate] (igm_InstanceTemplate exPoolMIG) = Some exTemplate"
  "matchInstanceGroup SafeObjectName exPoolMIG exCluster exDeclared =
     (None, Some (Errorf_q ''found multiple instance groups matching MIG %q'' ''us-east1-b-pool-a-c1''))"
  by (simp_all add: discovery_simps ex_defs)

section \<open>Properties of discovery\<close>

lemma getCloudGroups_shape:
  "(\<exists>groups. getCloudGroups sn gnm c cluster igs warn nodes = (Some groups, None)) \<or>
   (\<exists>e. getCloudGroups sn gnm c cluster igs warn nodes = (None, Some e))"
proof (cases "FindInstanceTemplates c (cluster_Name cluster)")
  case (Inl e)
  then show ?thesis by (simp add: getCloudGroups_def)
next
  case templates: (Inr templates)
  show ?thesis
  proof (cases "Zones c")
    case (Inl e)
    with templates show ?thesis by (simp add: getCloudGroups_def)
  next
    case (Inr zones)
    have "getCloudGroups sn gnm c cluster igs warn nodes =
        listZones sn c cluster igs warn (gnm nodes) (indexTemplates templates) (Project c) zones Map.empty"
      using templates Inr by (rule getCloudGroups_listed)
    with listZones_shape [of sn c cluster igs warn "gnm nodes" "indexTemplates templates"
        "Project c" zones Map.empty]
    show ?thesis by auto
  qed
qed

lemma getCloudGroups_page_fetch_fails:
  assumes "FindInstanceTemplates c (cluster_Name cluster) = Inr templates"
    and "Zones c = Inr zones"
    and "zoneName \<in> set zones"
    and "Inl e \<in> set (ListInstanceGroupManagers c (Project c) zoneName)"
  shows "\<exists>e'. getCloudGroups sn gnm c cluster igs warn (nodes :: 'node list) =
           (None, Some (Errorf_v ''error listing InstanceGroupManagers: %v'' e'))"
proof -
  have "fst (Pages (ListInstanceGroupManagers c (Project c) zoneName)
       (processPage sn c cluster igs warn (gnm nodes) (indexTemplates templates)) groups) \<noteq> None"
    for groups :: "'node groups"
    using assms(4) by (rule Pages_fetch_fails)
  with assms(3) have "\<exists>e'. listZones sn c cluster igs warn (gnm nodes) (indexTemplates templates)
       (Project c) zones Map.empty = (None, Some (Errorf_v ''error listing InstanceGroupManagers: %v'' e'))"
    by (rule listZones_fails)
  then show ?thesis
    by (simp add: getCloudGroups_listed [OF assms(1,2)])
qed

lemma getCloudGroups_callback_fails:
  assumes "FindInstanceTemplates c (cluster_Name cluster) = Inr templates"
    and "Zones c = Inr zones"
    and "zoneName \<in> set zones"
    and "Inr page \<in> set (ListInstanceGroupManagers c (Project c) zoneName)"
    and "mig \<in> set page"
    and "\<And>groups :: 'node groups. fst (processInstanceGroupManager sn c cluster igs warn (gnm nodes)
           (indexTemplates templates) mig groups) \<noteq> None"
  shows "\<exists>e'. getCloudGroups sn gnm c cluster igs warn (nodes :: 'node list) =
           (None, Some (Errorf_v ''error listing InstanceGroupManagers: %v'' e'))"
proof -
  have "fst (processPage sn c cluster igs warn (gnm nodes) (indexTemplates templates) page groups)
      \<noteq> None" for groups :: "'node groups"
    using assms(5,6) by (rule processPage_fails)
  with assms(4) have "fst (Pages (ListInstanceGroupManagers c (Project c) zoneName)
       (processPage sn c cluster igs warn (gnm nodes) (indexTemplates templates)) groups) \<noteq> None"
    for groups :: "'node groups"
    by (rule Pages_callback_fails)
  with assms(3) have "\<exists>e'. listZones sn c cluster igs warn (gnm nodes) (indexTemplates templates)
       (Project c) zones Map.empty = (None, Some (Errorf_v ''error listing InstanceGroupManagers: %v'' e'))"
    by (rule listZones_fails)
  then show ?thesis
    by (simp add: getCloudGroups_listed [OF assms(1,2)])
qed

text \<open>
  C5. Discovery is all or nothing. If the listing of the templates fails, or the listing
  of the zones, discovery returns that error and no map; if the fetch of a page of
  managed groups fails in any zone, or the listing of the instances of a matched managed
  group, discovery returns no map and an error wrapped as a listing error. In every case
  it returns either a map and no error, or no map and an error.
\<close>

theorem getCloudGroups_all_or_nothing:
  "(FindInstanceTemplates c (cluster_Name cluster) = Inl e \<longrightarrow>
      getCloudGroups sn gnm c cluster igs warn (nodes :: 'node list) = (None, Some e)) \<and>
   (FindInstanceTemplates c (cluster_Name cluster) = Inr templates \<and> Zones c = Inl e \<longrightarrow>
      getCloudGroups sn gnm c cluster igs warn nodes = (None, Some e)) \<and>
   (FindInstanceTemplates c (cluster_Name cluster) = Inr templates \<and> Zones c = Inr zones \<and>
    zoneName \<in> set zones \<and> Inl e \<in> set (ListInstanceGroupManagers c (Project c) zoneName) \<longrightarrow>
      (\<exists>e'. getCloudGroups sn gnm c cluster igs warn nodes =
         (None, Some (Errorf_v ''error listing InstanceGroupManagers: %v'' e')))) \<and>
   (FindInstanceTemplates c (cluster_Name cluster) = Inr templates \<and> Zones c = Inr zones \<and>
    zoneName \<in> set zones \<and> Inr page \<in> set (ListInstanceGroupManagers c (Project c) zoneName) \<and>
    mig \<in> set page \<and> indexTemplates templates (igm_InstanceTemplate mig) = Some t \<and>
    matchInstanceGroup sn mig cluster igs = (Some ig, None) \<and>
    ListManagedInstances c mig = Inl e \<longrightarrow>
      (\<exists>e'. getCloudGroups sn gnm c cluster igs warn nodes =
         (None, Some (Errorf_v ''error listing InstanceGroupManagers: %v'' e')))) \<and>
   ((\<exists>groups. getCloudGroups sn gnm c cluster igs warn nodes = (Some groups, None)) \<or>
    (\<exists>e'. getCloudGroups sn gnm c cluster igs warn nodes = (None, Some e')))"
proof (intro conjI impI)
  assume "FindInstanceTemplates c (cluster_Name cluster) = Inl e"
  then show "getCloudGroups sn gnm c cluster igs warn nodes = (None, Some e)"
    by (simp add: getCloudGroups_def)
next
  assume "FindInstanceTemplates c (cluster_Name cluster) = Inr templates \<and> Zones c = Inl e"
  then show "getCloudGroups sn gnm c cluster igs warn nodes = (None, Some e)"
    by (simp add: getCloudGroups_def)
next
  assume "FindInstanceTemplates c (cluster_Name cluster) = Inr templates \<and> Zones c = Inr zones \<and>
    zoneName \<in> set zones \<and> Inl e \<in> set (ListInstanceGroupManagers c (Project c) zoneName)"
  then show "\<exists>e'. getCloudGroups sn gnm c cluster igs warn nodes =
         (None, Some (Errorf_v ''error listing InstanceGroupManagers: %v'' e'))"
    using getCloudGroups_page_fetch_fails by blast
next
  assume a: "FindInstanceTemplates c (cluster_Name cluster) = Inr templates \<and> Zones c = Inr zones \<and>
    zoneName \<in> set zones \<and> Inr page \<in> set (ListInstanceGroupManagers c (Project c) zoneName) \<and>
    mig \<in> set page \<and> indexTemplates templates (igm_InstanceTemplate mig) = Some t \<and>
    matchInstanceGroup sn mig cluster igs = (Some ig, None) \<and>
    ListManagedInstances c mig = Inl e"
  then have "fst (processInstanceGroupManager sn c cluster igs warn (gnm nodes)
       (indexTemplates templates) mig groups) \<noteq> None" for groups :: "'node groups"
    by (simp add: processInstanceGroupManager_listing_fails [of _ _ t _ _ _ ig _ e])
  with a show "\<exists>e'. getCloudGroups sn gnm c cluster igs warn nodes =
         (None, Some (Errorf_v ''error listing InstanceGroupManagers: %v'' e'))"
    by (intro getCloudGroups_callback_fails [of c cluster templates zones zoneName page mig]) simp_all
next
  show "(\<exists>groups. getCloudGroups sn gnm c cluster igs warn nodes = (Some groups, None)) \<or>
    (\<exists>e'. getCloudGroups sn gnm c cluster igs warn nodes = (None, Some e'))"
    by (rule getCloudGroups_shape)
qed


theorem getCloudGroups_all_or_nothing_witness:
  "(FindInstanceTemplates exCloudNoTemplates (cluster_Name exCluster) = Inl exError \<and>
    getCloudGroups SafeObjectName nodeMapByExternalID exCloudNoTemplates exCluster exDeclared False
      [exNode1] = (None, Some exError)) \<and>
   (FindInstanceTemplates exCloudNoZones (cluster_Name exCluster) = Inr [exTemplate] \<and>
    Zones exCloudNoZones = Inl exError \<and>
    getCloudGroups SafeObjectName nodeMapByExternalID exCloudNoZones exCluster exDeclared False
      [exNode1] = (None, Some exError)) \<and>
   (FindInstanceTemplates exCloudPageFails (cluster_Name exCluster) = Inr [exTemplate] \<and>
    Zones exCloudPageFails = Inr [''us-east1-b''] \<and>
    Inl exError \<in> set (ListInstanceGroupManagers exCloudPageFails (Project exCloudPageFails)
      ''us-east1-b'') \<and>
    getCloudGroups SafeObjectName nodeMapByExternalID exCloudPageFails exCluster exDeclared False
      [exNode1] = (None, Some (Errorf_v ''error listing InstanceGroupManagers: %v'' exError))) \<and>
   (FindInstanceTemplates exCloudInstancesFail (cluster_Name exCluster) = Inr [exTemplate] \<and>
    Zones exCloudInstancesFail = Inr [''us-east1-b''] \<and>
    Inr [exMIG] \<in> set (ListInstanceGroupManagers exCloudInstancesFail
      (Project exCloudInstancesFail) ''us-east1-b'') \<and>
    indexTemplates [exTemplate] (igm_InstanceTemplate exMIG) = Some exTemplate \<and>
    matchInstanceGroup SafeObjectName exMIG exCluster exDeclared = (Some exNodes, None) \<and>
    ListManagedInstances exCloudInstancesFail exMIG = Inl exError \<and>
    getCloudGroups SafeObjectName nodeMapByExternalID exCloudInstancesFail exCluster exDeclared False
      [exNode1] = (None, Some (Errorf_v ''error listing InstanceGroupManagers: %v'' exError)))"
proof -
  have clouds:
    "FindInstanceTemplates exCloudNoTemplates (cluster_Name exCluster) = Inl exError"
    "FindInstanceTemplates exCloudNoZones (cluster_Name exCluster) = Inr [exTemplate]"
    "Zones exCloudNoZones = Inl exError"
    "FindInstanceTemplates exCloudPageFails (cluster_Name exCluster) = Inr [exTemplate]"
    "Zones exCloudPageFails = Inr [''us-east1-b'']"
    "Inl exError \<in> set (ListInstanceGroupManagers exCloudPageFails (Project exCloudPageFails)
      ''us-east1-b'')"
    "FindInstanceTemplates exCloudInstancesFail (cluster_Name exCluster) = Inr [exTemplate]"
    "Zones exCloudInstancesFail = Inr [''us-east1-b'']"
    "Inr [exMIG] \<in> set (ListInstanceGroupManagers exCloudInstancesFail
      (Project exCloudInstancesFail) ''us-east1-b'')"
    "ListManagedInstances exCloudInstancesFail exMIG = Inl exError"
    by (simp_all add: exCloudNoTemplates_def exCloudNoZones_def exCloudPageFails_def
        exCloudInstancesFail_def exCloud_def)
  have a: "getCloudGroups SafeObjectName nodeMapByExternalID exCloudNoTemplates exCluster exDeclared
      False [exNode1] = (None, Some exError)"
    using clouds(1) getCloudGroups_all_or_nothing
      [where c = exCloudNoTemplates and cluster = exCluster and e = exError and sn = SafeObjectName
        and gnm = nodeMapByExternalID and igs = exDeclared and warn = False and nodes = "[exNode1]"
        and templates = "[]" and zones = "[]" and zoneName = "[]" and page = "[]" and mig = exMIG
        and t = exTemplate and ig = exNodes]
    by blast
  have b: "getCloudGroups SafeObjectName nodeMapByExternalID exCloudNoZones exCluster exDeclared
      False [exNode1] = (None, Some exError)"
    using clouds(2,3) getCloudGroups_all_or_nothing
      [where c = exCloudNoZones and cluster = exCluster and e = exError and sn = SafeObjectName
        and gnm = nodeMapByExternalID and igs = exDeclared and warn = False and nodes = "[exNode1]"
        and templates = "[exTemplate]" and zones = "[]" and zoneName = "[]" and page = "[]"
        and mig = exMIG and t = exTemplate and ig = exNodes]
    by blast
  have "\<exists>e'. getCloudGroups SafeObjectName nodeMapByExternalID exCloudPageFails exCluster exDeclared
      False [exNode1] = (None, Some (Errorf_v ''error listing InstanceGroupManagers: %v'' e'))"
    using clouds(4,5,6) getCloudGroups_all_or_nothing
      [where c = exCloudPageFails and cluster = exCluster and e = exError and sn = SafeObjectName
        and gnm = nodeMapByExternalID and igs = exDeclared and warn = False and nodes = "[exNode1]"
        and templates = "[exTemplate]" and zones = "[''us-east1-b'']" and zoneName = "''us-east1-b''"
        and page = "[]" and mig = exMIG and t = exTemplate and ig = exNodes]
    by simp
  then have c: "getCloudGroups SafeObjectName nodeMapByExternalID exCloudPageFails exCluster exDeclared
      False [exNode1] = (None, Some (Errorf_v ''error listing InstanceGroupManagers: %v'' exError))"
    by (simp add: exCloudPageFails_discovery)
  have "\<exists>e'. getCloudGroups SafeObjectName nodeMapByExternalID exCloudInstancesFail exCluster exDeclared
      False [exNode1] = (None, Some (Errorf_v ''error listing InstanceGroupManagers: %v'' e'))"
    using clouds(7,8,9,10) exMIG_facts(1,2) getCloudGroups_all_or_nothing
      [where c = exCloudInstancesFail and cluster = exCluster and e = exError and sn = SafeObjectName
        and gnm = nodeMapByExternalID and igs = exDeclared and warn = False and nodes = "[exNode1]"
        and templates = "[exTemplate]" and zones = "[''us-east1-b'']" and zoneName = "''us-east1-b''"
        and page = "[exMIG]" and mig = exMIG and t = exTemplate and ig = exNodes]
    by simp
  then have d: "getCloudGroups SafeObjectName nodeMapByExternalID exCloudInstancesFail exCluster
      exDeclared False [exNode1] =
      (None, Some (Errorf_v ''error listing InstanceGroupManagers: %v'' exError))"
    by (simp add: exCloudInstancesFail_discovery)
  from clouds a b c d exMIG_facts(1,2) show ?thesis by simp
qed








text \<open>
  C7. A managed group whose template is not in the index of the cluster's templates is
  passed over: the loop body leaves the map as it was and returns no error, whatever the
  matcher would say of the group and whatever the provider would answer for its
  instances. Discovery as a whole returns the same as on the cloud whose listings leave
  such groups out, and every entry of the map it returns was built from a managed group
  on one of the cluster's templates.
\<close>

theorem unmanaged_template_skipped:
  "(instanceTemplates (igm_InstanceTemplate mig) = None \<longrightarrow>
      processInstanceGroupManager sn c cluster igs warn nodesByExternalID instanceTemplates
        mig groups = (None, groups)) \<and>
   getCloudGroups sn gnm (withoutUnmanaged c cluster) cluster igs warn (nodes :: 'node list) =
     getCloudGroups sn gnm c cluster igs warn nodes \<and>
   (FindInstanceTemplates c (cluster_Name cluster) = Inr templates \<and>
    getCloudGroups sn gnm c cluster igs warn nodes = (Some result, None) \<and>
    result name = Some g \<longrightarrow>
      (case Raw g of
         RawInstanceGroupManager m \<Rightarrow> indexTemplates templates (igm_InstanceTemplate m) \<noteq> None
       | RawNil \<Rightarrow> False
       | RawOther \<Rightarrow> False))"
proof (intro conjI impI)
  assume "instanceTemplates (igm_InstanceTemplate mig) = None"
  then show "processInstanceGroupManager sn c cluster igs warn nodesByExternalID instanceTemplates
        mig groups = (None, groups)"
    by (rule processInstanceGroupManager_unowned)
next
  show "getCloudGroups sn gnm (withoutUnmanaged c cluster) cluster igs warn nodes =
     getCloudGroups sn gnm c cluster igs warn nodes"
    by (rule getCloudGroups_withoutUnmanaged)
next
  assume "FindInstanceTemplates c (cluster_Name cluster) = Inr templates \<and>
    getCloudGroups sn gnm c cluster igs warn nodes = (Some result, None) \<and>
    result name = Some g"
  then have "builtEntry (indexTemplates templates) name g"
    using getCloudGroups_builtEntry by blast
  then show "case Raw g of
         RawInstanceGroupManager m \<Rightarrow> indexTemplates templates (igm_InstanceTemplate m) \<noteq> None
       | RawNil \<Rightarrow> False
       | RawOther \<Rightarrow> False"
    by (simp add: builtEntry_def split: raw.splits)
qed


theorem unmanaged_template_skipped_witness:
  "indexTemplates [exTemplate] (igm_InstanceTemplate exForeignMIG) = None \<and>
   matchInstanceGroup SafeObjectName exForeignMIG exCluster exDeclared =
     (None, Some (Errorf_q ''found multiple instance groups matching MIG %q''
        ''us-east1-b-pool-a-c1'')) \<and>
   processInstanceGroupManager SafeObjectName exCloudInstancesFail exCluster exDeclared False
     (nodeMapByExternalID [exNode1]) (indexTemplates [exTemplate]) exForeignMIG
     [''us-east1-b-nodes-c1'' \<mapsto> exDiscovered] =
     (None, [''us-east1-b-nodes-c1'' \<mapsto> exDiscovered]) \<and>
   getCloudGroups SafeObjectName nodeMapByExternalID (withoutUnmanaged exCloud exCluster) exCluster
     exDeclared False [exNode1] = (Some [''us-east1-b-nodes-c1'' \<mapsto> exDiscovered], None) \<and>
   FindInstanceTemplates exCloud (cluster_Name exCluster) = Inr [exTemplate] \<and>
   getCloudGroups SafeObjectName nodeMapByExternalID exCloud exCluster exDeclared False [exNode1] =
     (Some [''us-east1-b-nodes-c1'' \<mapsto> exDiscovered], None) \<and>
   Raw exDiscovered = RawInstanceGroupManager exMIG \<and>
   indexTemplates [exTemplate] (igm_InstanceTemplate exMIG) \<noteq> None"
proof -
  have ft: "FindInstanceTemplates exCloud (cluster_Name exCluster) = Inr [exTemplate]"
    by (simp add: exCloud_def)
  have r: "Raw exDiscovered = RawInstanceGroupManager exMIG"
    by (simp add: exDiscovered_def)
  note inst = unmanaged_template_skipped
    [where instanceTemplates = "indexTemplates [exTemplate]" and mig = exForeignMIG
      and sn = SafeObjectName and c = exCloudInstancesFail and cluster = exCluster and igs = exDeclared
      and warn = False and nodesByExternalID = "nodeMapByExternalID [exNode1]"
      and groups = "[''us-east1-b-nodes-c1'' \<mapsto> exDiscovered]"
      and gnm = nodeMapByExternalID and nodes = "[exNode1]" and templates = "[exTemplate]"
      and result = "[''us-east1-b-nodes-c1'' \<mapsto> exDiscovered]"
      and name = "''us-east1-b-nodes-c1''" and g = exDiscovered]
  note inst' = unmanaged_template_skipped
    [where instanceTemplates = "indexTemplates [exTemplate]" and mig = exForeignMIG
      and sn = SafeObjectName and c = exCloud and cluster = exCluster and igs = exDeclared
      and warn = False and nodesByExternalID = "nodeMapByExternalID [exNode1]"
      and groups = "[''us-east1-b-nodes-c1'' \<mapsto> exDiscovered]"
      and gnm = nodeMapByExternalID and nodes = "[exNode1]" and templates = "[exTemplate]"
      and result = "[''us-east1-b-nodes-c1'' \<mapsto> exDiscovered]"
      and name = "''us-east1-b-nodes-c1''" and g = exDiscovered]
  from inst exMIG_facts(3)
  have step: "processInstanceGroupManager SafeObjectName exCloudInstancesFail exCluster exDeclared False
     (nodeMapByExternalID [exNode1]) (indexTemplates [exTemplate]) exForeignMIG
     [''us-east1-b-nodes-c1'' \<mapsto> exDiscovered] =
     (None, [''us-east1-b-nodes-c1'' \<mapsto> exDiscovered])"
    by blast
  from inst' have "getCloudGroups SafeObjectName nodeMapByExternalID (withoutUnmanaged exCloud exCluster)
      exCluster exDeclared False [exNode1] =
    getCloudGroups SafeObjectName nodeMapByExternalID exCloud exCluster exDeclared False [exNode1]"
    by blast
  then have same: "getCloudGroups SafeObjectName nodeMapByExternalID
      (withoutUnmanaged exCloud exCluster) exCluster exDeclared False [exNode1] =
      (Some [''us-east1-b-nodes-c1'' \<mapsto> exDiscovered], None)"
    by (simp add: exCloud_discovery)
  from inst' ft exCloud_discovery
  have "case Raw exDiscovered of
         RawInstanceGroupManager m \<Rightarrow> indexTemplates [exTemplate] (igm_InstanceTemplate m) \<noteq> None
       | RawNil \<Rightarrow> False
       | RawOther \<Rightarrow> False"
    by simp
  then have owned: "indexTemplates [exTemplate] (igm_InstanceTemplate exMIG) \<noteq> None"
    by (simp add: r)
  from exMIG_facts(3,4) step same ft exCloud_discovery r owned show ?thesis
    by simp
qed

text \<open>
  C8. For a matched managed group the loop body builds a record whose \<open>HumanName\<close> is
  the group's name, whose \<open>MinSize\<close> and \<open>MaxSize\<close> are both the group's target size,
  and stores it in the map under the group's name. In the map that discovery returns,
  every entry is such a record under the name of its managed group, and every matched
  managed group of a listed page has an entry under its name.
\<close>

theorem built_group_record:
  "(instanceTemplates (igm_InstanceTemplate mig) = Some t \<and>
    matchInstanceGroup sn mig cluster igs = (Some ig, None) \<and>
    ListManagedInstances c mig = Inr instances \<longrightarrow>
      (\<exists>g. processInstanceGroupManager sn c cluster igs warn nodesByExternalID instanceTemplates
              mig groups = (None, groups(igm_Name mig \<mapsto> g)) \<and>
           HumanName g = igm_Name mig \<and>
           MinSize g = igm_TargetSize mig \<and> MaxSize g = igm_TargetSize mig \<and>
           cig_InstanceGroup g = Some ig \<and> Raw g = RawInstanceGroupManager mig)) \<and>
   (FindInstanceTemplates c (cluster_Name cluster) = Inr templates \<and>
    getCloudGroups sn gnm c cluster igs warn (nodes :: 'node list) = (Some result, None) \<and>
    result name = Some g' \<longrightarrow>
      builtEntry (indexTemplates templates) name g') \<and>
   (FindInstanceTemplates c (cluster_Name cluster) = Inr templates \<and> Zones c = Inr zones \<and>
    zoneName \<in> set zones \<and> Inr page \<in> set (ListInstanceGroupManagers c (Project c) zoneName) \<and>
    mig \<in> set page \<and> indexTemplates templates (igm_InstanceTemplate mig) = Some t \<and>
    matchInstanceGroup sn mig cluster igs = (Some ig, None) \<and>
    getCloudGroups sn gnm c cluster igs warn nodes = (Some result, None) \<longrightarrow>
      (\<exists>g. result (igm_Name mig) = Some g \<and> HumanName g = igm_Name mig \<and>
           MinSize g = MaxSize g))"
proof (intro conjI impI)
  assume a: "instanceTemplates (igm_InstanceTemplate mig) = Some t \<and>
    matchInstanceGroup sn mig cluster igs = (Some ig, None) \<and>
    ListManagedInstances c mig = Inr instances"
  let ?g = "classifyInstances nodesByExternalID (igm_InstanceTemplate mig) instances
          \<lparr>HumanName = igm_Name mig, cig_InstanceGroup = Some ig, Ready = [], NeedUpdate = [],
           MinSize = int_of_int64 (igm_TargetSize mig), MaxSize = int_of_int64 (igm_TargetSize mig),
           Raw = RawInstanceGroupManager mig\<rparr>"
  have "processInstanceGroupManager sn c cluster igs warn nodesByExternalID instanceTemplates
          mig groups = (None, groups(igm_Name mig \<mapsto> ?g))"
    using a by (intro processInstanceGroupManager_matched [where t = t]) simp_all
  then show "\<exists>g. processInstanceGroupManager sn c cluster igs warn nodesByExternalID
              instanceTemplates mig groups = (None, groups(igm_Name mig \<mapsto> g)) \<and>
           HumanName g = igm_Name mig \<and>
           MinSize g = igm_TargetSize mig \<and> MaxSize g = igm_TargetSize mig \<and>
           cig_InstanceGroup g = Some ig \<and> Raw g = RawInstanceGroupManager mig"
    by (intro exI [of _ ?g]) (simp add: classifyInstances_frame int_of_int64_def)
next
  assume "FindInstanceTemplates c (cluster_Name cluster) = Inr templates \<and>
    getCloudGroups sn gnm c cluster igs warn nodes = (Some result, None) \<and>
    result name = Some g'"
  then show "builtEntry (indexTemplates templates) name g'"
    using getCloudGroups_builtEntry by blast
next
  assume a: "FindInstanceTemplates c (cluster_Name cluster) = Inr templates \<and> Zones c = Inr zones \<and>
    zoneName \<in> set zones \<and> Inr page \<in> set (ListInstanceGroupManagers c (Project c) zoneName) \<and>
    mig \<in> set page \<and> indexTemplates templates (igm_InstanceTemplate mig) = Some t \<and>
    matchInstanceGroup sn mig cluster igs = (Some ig, None) \<and>
    getCloudGroups sn gnm c cluster igs warn nodes = (Some result, None)"
  then have ft: "FindInstanceTemplates c (cluster_Name cluster) = Inr templates"
    and z: "Zones c = Inr zones" by simp_all
  from a have "listZones sn c cluster igs warn (gnm nodes) (indexTemplates templates) (Project c)
      zones Map.empty = (Some result, None)"
    by (simp add: getCloudGroups_listed [OF ft z])
  with a have "igm_Name mig \<in> dom result"
    by (intro listZones_inserts [where its = "indexTemplates templates" and t = t and ig = ig
          and page = page and zoneName = zoneName and zones = zones and c = c
          and project = "Project c" and groups = Map.empty and nodes = "gnm nodes"
          and sn = sn and cluster = cluster and igs = igs and warn = warn]) simp_all
  then obtain g where g: "result (igm_Name mig) = Some g" by blast
  with a have "builtEntry (indexTemplates templates) (igm_Name mig) g"
    using getCloudGroups_builtEntry by blast
  with g show "\<exists>g. result (igm_Name mig) = Some g \<and> HumanName g = igm_Name mig \<and>
           MinSize g = MaxSize g"
    by (simp add: builtEntry_def)
qed


theorem built_group_record_witness:
  "indexTemplates [exTemplate] (igm_InstanceTemplate exMIG) = Some exTemplate \<and>
   matchInstanceGroup SafeObjectName exMIG exCluster exDeclared = (Some exNodes, None) \<and>
   ListManagedInstances exCloud exMIG = Inr exInstances \<and>
   processInstanceGroupManager SafeObjectName exCloud exCluster exDeclared False
     (nodeMapByExternalID [exNode1]) (indexTemplates [exTemplate]) exMIG Map.empty =
     (None, [igm_Name exMIG \<mapsto> exDiscovered]) \<and>
   HumanName exDiscovered = igm_Name exMIG \<and>
   MinSize exDiscovered = igm_TargetSize exMIG \<and> MaxSize exDiscovered = igm_TargetSize exMIG \<and>
   FindInstanceTemplates exCloud (cluster_Name exCluster) = Inr [exTemplate] \<and>
   Zones exCloud = Inr [''us-east1-b''] \<and>
   Inr [exMIG] \<in> set (ListInstanceGroupManagers exCloud (Project exCloud) ''us-east1-b'') \<and>
   getCloudGroups SafeObjectName nodeMapByExternalID exCloud exCluster exDeclared False [exNode1] =
     (Some [''us-east1-b-nodes-c1'' \<mapsto> exDiscovered], None) \<and>
   builtEntry (indexTemplates [exTemplate]) ''us-east1-b-nodes-c1'' exDiscovered \<and>
   (\<exists>g. [''us-east1-b-nodes-c1'' \<mapsto> exDiscovered] (igm_Name exMIG) = Some g \<and>
        HumanName g = igm_Name exMIG \<and> MinSize g = MaxSize g)"
proof -
  have cloud:
    "ListManagedInstances exCloud exMIG = Inr exInstances"
    "FindInstanceTemplates exCloud (cluster_Name exCluster) = Inr [exTemplate]"
    "Zones exCloud = Inr [''us-east1-b'']"
    "Inr [exMIG] \<in> set (ListInstanceGroupManagers exCloud (Project exCloud) ''us-east1-b'')"
    by (simp_all add: exCloud_def)
  have name: "igm_Name exMIG = ''us-east1-b-nodes-c1''"
    by (simp add: exMIG_def)
  note inst = built_group_record
    [where instanceTemplates = "indexTemplates [exTemplate]" and mig = exMIG and t = exTemplate
      and sn = SafeObjectName and cluster = exCluster and igs = exDeclared and ig = exNodes
      and c = exCloud and instances = exInstances and warn = False
      and nodesByExternalID = "nodeMapByExternalID [exNode1]" and groups = Map.empty
      and templates = "[exTemplate]" and gnm = nodeMapByExternalID and nodes = "[exNode1]"
      and result = "[''us-east1-b-nodes-c1'' \<mapsto> exDiscovered]"
      and name = "''us-east1-b-nodes-c1''" and g' = exDiscovered
      and zones = "[''us-east1-b'']" and zoneName = "''us-east1-b''" and page = "[exMIG]"]
  from inst exMIG_facts(1,2) cloud(1)
  obtain g where g: "processInstanceGroupManager SafeObjectName exCloud exCluster exDeclared False
      (nodeMapByExternalID [exNode1]) (indexTemplates [exTemplate]) exMIG Map.empty =
      (None, [igm_Name exMIG \<mapsto> g])"
    "HumanName g = igm_Name exMIG" "MinSize g = igm_TargetSize exMIG"
    "MaxSize g = igm_TargetSize exMIG"
    by blast
  from g(1) exMIG_step name have "g = exDiscovered"
    by (auto dest: map_upd_eqD1)
  with g have built: "HumanName exDiscovered = igm_Name exMIG \<and>
      MinSize exDiscovered = igm_TargetSize exMIG \<and> MaxSize exDiscovered = igm_TargetSize exMIG"
    by simp
  from inst cloud(2) exCloud_discovery
  have entry: "builtEntry (indexTemplates [exTemplate]) ''us-east1-b-nodes-c1'' exDiscovered"
    by simp
  from inst exMIG_facts(1,2) cloud exCloud_discovery
  have listed: "\<exists>g. [''us-east1-b-nodes-c1'' \<mapsto> exDiscovered] (igm_Name exMIG) = Some g \<and>
        HumanName g = igm_Name exMIG \<and> MinSize g = MaxSize g"
    by simp
  from exMIG_facts(1,2) cloud exMIG_step name built entry listed exCloud_discovery
  show ?thesis by simp
qed

text \<open>
  C9. An instance whose id, written in decimal, is not a key of the node map still gets
  its member record, with the instance's identifier and no node; processing the group
  returns no error, and the member is in \<open>Ready\<close> when the instance is on the group's
  current template and in \<open>NeedUpdate\<close> otherwise.
\<close>

theorem member_without_node:
  assumes "instanceTemplates (igm_InstanceTemplate mig) = Some t"
    and "matchInstanceGroup sn mig cluster igs = (Some ig, None)"
    and "ListManagedInstances c mig = Inr instances"
    and "i \<in> set instances"
    and "nodesByExternalID (FormatUint (mi_Id i)) = None"
  shows "\<exists>g. processInstanceGroupManager sn c cluster igs warn nodesByExternalID instanceTemplates
              mig groups = (None, groups(igm_Name mig \<mapsto> g)) \<and>
           newMember nodesByExternalID i = \<lparr>ID = mi_Instance i, Node = None\<rparr> \<and>
           (if hasLatestTemplate (igm_InstanceTemplate mig) i
            then \<lparr>ID = mi_Instance i, Node = None\<rparr> \<in> set (Ready g)
            else \<lparr>ID = mi_Instance i, Node = None\<rparr> \<in> set (NeedUpdate g))"
proof -
  let ?g = "classifyInstances nodesByExternalID (igm_InstanceTemplate mig) instances
          \<lparr>HumanName = igm_Name mig, cig_InstanceGroup = Some ig, Ready = [], NeedUpdate = [],
           MinSize = int_of_int64 (igm_TargetSize mig), MaxSize = int_of_int64 (igm_TargetSize mig),
           Raw = RawInstanceGroupManager mig\<rparr>"
  have p: "processInstanceGroupManager sn c cluster igs warn nodesByExternalID instanceTemplates
          mig groups = (None, groups(igm_Name mig \<mapsto> ?g))"
    using assms(1-3) by (rule processInstanceGroupManager_matched)
  have m: "newMember nodesByExternalID i = \<lparr>ID = mi_Instance i, Node = None\<rparr>"
    using assms(5) by (simp add: newMember_def)
  have "if hasLatestTemplate (igm_InstanceTemplate mig) i
        then \<lparr>ID = mi_Instance i, Node = None\<rparr> \<in> set (Ready ?g)
        else \<lparr>ID = mi_Instance i, Node = None\<rparr> \<in> set (NeedUpdate ?g)"
    unfolding m [symmetric]
    using assms(4) by (simp add: classifyInstances_Ready classifyInstances_NeedUpdate)
  with p m show ?thesis
    by blast
qed

theorem member_without_node_witness:
  "indexTemplates [exTemplate] (igm_InstanceTemplate exMIG) = Some exTemplate \<and>
   matchInstanceGroup SafeObjectName exMIG exCluster exDeclared = (Some exNodes, None) \<and>
   ListManagedInstances exCloud exMIG = Inr exInstances \<and>
   exInstance2 \<in> set exInstances \<and> exInstance4 \<in> set exInstances \<and>
   FormatUint (mi_Id exInstance2) = ''1002'' \<and>
   nodeMapByExternalID [exNode1] (FormatUint (mi_Id exInstance2)) = None \<and>
   nodeMapByExternalID [exNode1] (FormatUint (mi_Id exInstance4)) = None \<and>
   hasLatestTemplate (igm_InstanceTemplate exMIG) exInstance2 \<and>
   \<not> hasLatestTemplate (igm_InstanceTemplate exMIG) exInstance4 \<and>
   processInstanceGroupManager SafeObjectName exCloud exCluster exDeclared False
     (nodeMapByExternalID [exNode1]) (indexTemplates [exTemplate]) exMIG Map.empty =
     (None, [igm_Name exMIG \<mapsto> exDiscovered]) \<and>
   \<lparr>ID = mi_Instance exInstance2, Node = None\<rparr> \<in> set (Ready exDiscovered) \<and>
   \<lparr>ID = mi_Instance exInstance4, Node = None\<rparr> \<in> set (NeedUpdate exDiscovered)"
proof -
  have cloud: "ListManagedInstances exCloud exMIG = Inr exInstances"
    by (simp add: exCloud_def)
  have inst: "exInstance2 \<in> set exInstances" "exInstance4 \<in> set exInstances"
    by (simp_all add: exInstances_def)
  have fmt: "FormatUint (mi_Id exInstance2) = ''1002''" "FormatUint (mi_Id exInstance4) = ''1004''"
    by (simp_all add: exInstance2_def exInstance4_def exFormatUint)
  have nodes: "nodeMapByExternalID [exNode1] (FormatUint (mi_Id exInstance2)) = None"
    "nodeMapByExternalID [exNode1] (FormatUint (mi_Id exInstance4)) = None"
    by (simp_all add: fmt nodeMapByExternalID_def exNode1_def)
  have latest: "hasLatestTemplate (igm_InstanceTemplate exMIG) exInstance2"
    "\<not> hasLatestTemplate (igm_InstanceTemplate exMIG) exInstance4"
    by (simp_all add: hasLatestTemplate_def exMIG_def exInstance2_def exInstance4_def)
  have name: "igm_Name exMIG = ''us-east1-b-nodes-c1''"
    by (simp add: exMIG_def)
  from member_without_node
    [where instanceTemplates = "indexTemplates [exTemplate]" and mig = exMIG and t = exTemplate
      and sn = SafeObjectName and cluster = exCluster and igs = exDeclared and ig = exNodes
      and c = exCloud and instances = exInstances and i = exInstance2 and warn = False
      and nodesByExternalID = "nodeMapByExternalID [exNode1]" and groups = Map.empty,
      OF exMIG_facts(1) exMIG_facts(2) cloud inst(1) nodes(1)]
    exMIG_step latest(1) name
  have two: "\<lparr>ID = mi_Instance exInstance2, Node = None\<rparr> \<in> set (Ready exDiscovered)"
    by (auto dest: map_upd_eqD1)
  from member_without_node
    [where instanceTemplates = "indexTemplates [exTemplate]" and mig = exMIG and t = exTemplate
      and sn = SafeObjectName and cluster = exCluster and igs = exDeclared and ig = exNodes
      and c = exCloud and instances = exInstances and i = exInstance4 and warn = False
      and nodesByExternalID = "nodeMapByExternalID [exNode1]" and groups = Map.empty,
      OF exMIG_facts(1) exMIG_facts(2) cloud inst(2) nodes(2)]
    exMIG_step latest(2) name
  have four: "\<lparr>ID = mi_Instance exInstance4, Node = None\<rparr> \<in> set (NeedUpdate exDiscovered)"
    by (auto dest: map_upd_eqD1)
  from exMIG_facts(1,2) cloud inst fmt nodes latest exMIG_step name two four
  show ?thesis by simp
qed

section \<open>Properties of the etcd manager's options\<close>























end
